theory Spec2Isabelle
  imports Complex_Main "HOL-Library.Sublist"
begin

section \<open>Strings: the built-in operations the sources rely on\<close>

text \<open>
  Strings are lists of \<^typ>\<open>char\<close>; a character stands for a code point below 256 and
  \<^const>\<open>length\<close> counts characters, as Python's \<^verbatim>\<open>len\<close> and JavaScript's
  \<^verbatim>\<open>.length\<close> do on such text.
\<close>

text \<open>The characters Python's \<^verbatim>\<open>str.split()\<close> treats as whitespace (code points below 256).\<close>

definition whitespace :: "char list" where
  "whitespace = [CHR 0x09, CHR 0x0A, CHR 0x0B, CHR 0x0C, CHR 0x0D,
                 CHR 0x1C, CHR 0x1D, CHR 0x1E, CHR 0x1F, CHR 0x20, CHR 0x85, CHR 0xA0]"

definition is_space :: "char \<Rightarrow> bool" where
  "is_space c = (c \<in> set whitespace)"

text \<open>
  \<^verbatim>\<open>text.split()\<close> without arguments: the maximal runs of non-whitespace characters, in
  order; no empty word is produced. The first argument is the word being read.
\<close>

fun split_loop :: "string \<Rightarrow> string \<Rightarrow> string list" where
  "split_loop cur [] = (if cur = [] then [] else [cur])"
| "split_loop cur (c # cs) =
     (if is_space c then (if cur = [] then split_loop [] cs else cur # split_loop [] cs)
      else split_loop (cur @ [c]) cs)"

definition py_split :: "string \<Rightarrow> string list" where
  "py_split text = split_loop [] text"

text \<open>\<^verbatim>\<open>sep.join(xs)\<close>.\<close>

fun py_join :: "string \<Rightarrow> string list \<Rightarrow> string" where
  "py_join sep [] = []"
| "py_join sep [x] = x"
| "py_join sep (x # y # ys) = x @ sep @ py_join sep (y # ys)"

definition newline :: string where
  "newline = [CHR 0x0A]"

text \<open>
  Python's \<^verbatim>\<open>s.replace(old, new)\<close>: every occurrence of \<open>old\<close>, found from left to right
  without overlap, becomes \<open>new\<close>; an empty \<open>old\<close> matches before every character and at the
  end.
\<close>

function py_replace :: "string \<Rightarrow> string \<Rightarrow> string \<Rightarrow> string" where
  "py_replace [] old new = (if old = [] then new else [])"
| "py_replace (c # cs) old new =
     (if old = [] then new @ c # py_replace cs old new
      else if prefix old (c # cs) then new @ py_replace (drop (length old) (c # cs)) old new
      else c # py_replace cs old new)"
  by pat_completeness auto
termination
  by (relation "measure (\<lambda>(s, old, new). length s)") auto

text \<open>
  JavaScript's \<^verbatim>\<open>s.replace(pattern, replacement)\<close> with a string pattern: only the first
  occurrence is replaced, and the replacement text is expanded first (\<^verbatim>\<open>GetSubstitution\<close> of
  ECMAScript): \<^verbatim>\<open>$$\<close> is a dollar sign, \<^verbatim>\<open>$&\<close> the matched text, \<^verbatim>\<open>$`\<close> the text before
  the match and \<^verbatim>\<open>$'\<close> the text after it. A string pattern has no capture groups, so
  every other \<^verbatim>\<open>$\<close> stays as written.
\<close>

fun split_first :: "string \<Rightarrow> string \<Rightarrow> (string \<times> string) option" where
  "split_first pat [] = (if pat = [] then Some ([], []) else None)"
| "split_first pat (c # cs) =
     (if prefix pat (c # cs) then Some ([], drop (length pat) (c # cs))
      else map_option (\<lambda>(pre, post). (c # pre, post)) (split_first pat cs))"

fun get_substitution :: "string \<Rightarrow> string \<Rightarrow> string \<Rightarrow> string \<Rightarrow> string" where
  "get_substitution matched pre post [] = []"
| "get_substitution matched pre post [c] = [c]"
| "get_substitution matched pre post (c # d # rest) =
     (if c = CHR ''$'' \<and> d = CHR ''$'' then CHR ''$'' # get_substitution matched pre post rest
      else if c = CHR ''$'' \<and> d = CHR ''&'' then matched @ get_substitution matched pre post rest
      else if c = CHR ''$'' \<and> d = CHR 0x60 then pre @ get_substitution matched pre post rest
      else if c = CHR ''$'' \<and> d = CHR 0x27 then post @ get_substitution matched pre post rest
      else c # get_substitution matched pre post (d # rest))"

definition js_replace :: "string \<Rightarrow> string \<Rightarrow> string \<Rightarrow> string" where
  "js_replace s pat replacement =
     (case split_first pat s of
        None \<Rightarrow> s
      | Some (pre, post) \<Rightarrow> pre @ get_substitution pat pre post replacement @ post)"

text \<open>
  JavaScript's \<^verbatim>\<open>s.trim()\<close> removes white space and line terminators at both ends; below
  256 these are the code points 9 to 13, 32 and 160.
\<close>

definition js_is_space :: "char \<Rightarrow> bool" where
  "js_is_space c = (c \<in> set [CHR 0x09, CHR 0x0A, CHR 0x0B, CHR 0x0C, CHR 0x0D, CHR 0x20, CHR 0xA0])"

definition js_trim :: "string \<Rightarrow> string" where
  "js_trim s = rev (dropWhile js_is_space (rev (dropWhile js_is_space s)))"

text \<open>The decimal rendering of a non-negative integer, as a template literal prints it.\<close>

definition digit_char :: "nat \<Rightarrow> char" where
  "digit_char d = char_of (48 + d)"

function string_of_nat :: "nat \<Rightarrow> string" where
  "string_of_nat n =
     (if n < 10 then [digit_char n] else string_of_nat (n div 10) @ [digit_char (n mod 10)])"
  by pat_completeness auto
termination
  by (relation "measure id") auto

section \<open>Document chunking (DocumentProcessor.chunk_text)\<close>

text \<open>
  The loop of \<^verbatim>\<open>chunk_text\<close> over the words, with its three variables \<^verbatim>\<open>chunks\<close>,
  \<^verbatim>\<open>current_chunk\<close> and \<^verbatim>\<open>current_size\<close>; the equation for the empty list is the code
  after the loop. \<^verbatim>\<open>chunk_size\<close> is a Python integer, so it is an \<^typ>\<open>int\<close>.
\<close>

fun chunk_loop :: "int \<Rightarrow> string list \<Rightarrow> string list \<Rightarrow> int \<Rightarrow> string list \<Rightarrow> string list" where
  "chunk_loop chunk_size chunks current_chunk current_size [] =
     (if current_chunk \<noteq> [] then chunks @ [py_join '' '' current_chunk] else chunks)"
| "chunk_loop chunk_size chunks current_chunk current_size (word # words) =
     (let current_chunk' = current_chunk @ [word];
          current_size' = current_size + (int (length word) + 1)
      in if current_size' \<ge> chunk_size
         then chunk_loop chunk_size (chunks @ [py_join '' '' current_chunk']) [] 0 words
         else chunk_loop chunk_size chunks current_chunk' current_size' words)"

definition chunk_text :: "string \<Rightarrow> int \<Rightarrow> string list" where
  "chunk_text text chunk_size = chunk_loop chunk_size [] [] 0 (py_split text)"

text \<open>
  The words of the specification. The running character length of a group of words is the
  sum of the word lengths plus one separator for each word. The whitespace-normalised text
  is the text without its leading and trailing whitespace and with every run of
  whitespace inside it replaced by a single space.
\<close>

definition acc_len :: "string list \<Rightarrow> int" where
  "acc_len ws = (\<Sum>w\<leftarrow>ws. int (length w) + 1)"

definition strip_ws :: "string \<Rightarrow> string" where
  "strip_ws s = rev (dropWhile is_space (rev (dropWhile is_space s)))"

function collapse_ws :: "string \<Rightarrow> string" where
  "collapse_ws [] = []"
| "collapse_ws (c # cs) =
     (if is_space c then CHR '' '' # collapse_ws (dropWhile is_space cs) else c # collapse_ws cs)"
  by pat_completeness auto
termination
  by (relation "measure length") (auto simp: length_dropWhile_le less_Suc_eq_le)

definition normalize_ws :: "string \<Rightarrow> string" where
  "normalize_ws text = collapse_ws (strip_ws text)"

text \<open>
  The greedy grouping of the specification, on words: a group is closed as soon as its
  running length reaches \<open>n\<close>, and what is left at the end is a group if it is not empty.
\<close>

fun greedy :: "int \<Rightarrow> string list \<Rightarrow> string list \<Rightarrow> string list list" where
  "greedy n cur [] = (if cur = [] then [] else [cur])"
| "greedy n cur (w # ws) =
     (if n \<le> acc_len (cur @ [w]) then (cur @ [w]) # greedy n [] ws
      else greedy n (cur @ [w]) ws)"

section \<open>Data model (types/workflow.ts, lib/supabase.ts)\<close>

datatype component_type = UserQuery | KnowledgeBase | LLMEngine | Output

record uploaded_file =
  file_id :: string
  file_name :: string
  file_size :: nat

text \<open>
  A node's \<^verbatim>\<open>data.config\<close>. The declared type is the union of the four per-type
  configurations and the code reads it as a dictionary, so every field may be absent
  (\<^const>\<open>None\<close> is JavaScript's \<^verbatim>\<open>undefined\<close> and a missing key in Python); a field that
  is present has its declared type. The field \<^verbatim>\<open>query\<close> of \<^verbatim>\<open>UserQueryConfig\<close> is named
  \<open>userQuery\<close> here. Numbers are only carried along, never computed with.
\<close>

record config =
  userQuery :: "string option"
  embeddingModel :: "string option"
  apiKey :: "string option"
  uploadedFiles :: "uploaded_file list option"
  model :: "string option"
  prompt :: "string option"
  temperature :: "real option"
  useWebSearch :: "bool option"
  webSearchTool :: "string option"
  webSearchApiKey :: "string option"
  displayMode :: "string option"

text \<open>
  A node: its \<^verbatim>\<open>id\<close>, its \<^verbatim>\<open>type\<close> and its \<^verbatim>\<open>data.config\<close>. The component library
  sets a configuration for every node it creates, but the chat receives nodes typed
  \<^verbatim>\<open>data: any\<close>, loaded from the datastore as they are, and the engine receives a JSON
  dictionary: \<^verbatim>\<open>data.config\<close> may be missing, and then \<open>node_config\<close> is \<^const>\<open>None\<close>.
  The object \<^verbatim>\<open>data\<close> itself is there, as every reader of a node in the repository takes
  it to be; its position and display fields are read by no function modelled here.
\<close>

record node =
  node_id :: string
  node_type :: component_type
  node_config :: "config option"

record edge =
  edge_id :: string
  source :: string
  target :: string

record workflow =
  nodes :: "node list"
  edges :: "edge list"

text \<open>
  Exceptions as values. \<open>ProviderError\<close> is whatever an external client raises (the HTTP
  request, the embedding or chat endpoint, the vector store); \<open>KeyError\<close> is Python's, for
  a key a dictionary lacks; \<open>Error\<close> is JavaScript's \<^verbatim>\<open>new Error(message)\<close> and
  \<open>TypeError\<close> what JavaScript throws when a property of \<^verbatim>\<open>undefined\<close> is read, with the
  name of the property.
\<close>

datatype error =
    ValueError string | IndexError | KeyError string | ProviderError string
  | Error string | TypeError string

section \<open>The reference backend: providers and their calls\<close>

type_synonym vector = "real list"

text \<open>What the vector store's query returns; \<^verbatim>\<open>documents\<close> holds one list per query embedding.\<close>

record query_results =
  documents :: "string list list option"

text \<open>The search endpoint's JSON: the key \<^verbatim>\<open>organic_results\<close> and each result's \<^verbatim>\<open>snippet\<close> may be missing.\<close>

record organic_result =
  snippet :: "string option"

record search_json =
  organic_results :: "organic_result list option"

text \<open>
  The external services, as functions from the arguments of a call to its outcome, and the
  calls an invocation makes, in order. The chat endpoint's outcome is
  \<^verbatim>\<open>response.choices[0].message.content\<close>.
\<close>

record providers =
  embeddings_create :: "string \<Rightarrow> string list \<Rightarrow> error + vector list"
  collection_query :: "string \<Rightarrow> vector \<Rightarrow> nat \<Rightarrow> error + query_results option"
  requests_get :: "string \<Rightarrow> string option \<Rightarrow> error + search_json"
  chat_completions_create :: "string \<Rightarrow> (string \<times> string) list \<Rightarrow> real \<Rightarrow> error + string"

datatype call =
    EmbeddingsCreate string "string list"
  | CollectionQuery string vector nat
  | RequestsGet string "string option"
  | ChatCompletionsCreate string "(string \<times> string) list" real

type_synonym 'a result = "(error + 'a) \<times> call list"

text \<open>Sequencing: an exception ends the computation; the calls made so far are kept.\<close>

definition and_then :: "'a result \<Rightarrow> ('a \<Rightarrow> 'b result) \<Rightarrow> 'b result" where
  "and_then m f =
     (case m of
        (Inl e, calls) \<Rightarrow> (Inl e, calls)
      | (Inr x, calls) \<Rightarrow> (case f x of (r, calls') \<Rightarrow> (r, calls @ calls')))"

definition is_embedding_call :: "call \<Rightarrow> bool" where
  "is_embedding_call c = (case c of EmbeddingsCreate _ _ \<Rightarrow> True | _ \<Rightarrow> False)"

definition is_vector_store_call :: "call \<Rightarrow> bool" where
  "is_vector_store_call c = (case c of CollectionQuery _ _ _ \<Rightarrow> True | _ \<Rightarrow> False)"

definition is_web_search_call :: "call \<Rightarrow> bool" where
  "is_web_search_call c = (case c of RequestsGet _ _ \<Rightarrow> True | _ \<Rightarrow> False)"

definition is_llm_call :: "call \<Rightarrow> bool" where
  "is_llm_call c = (case c of ChatCompletionsCreate _ _ _ \<Rightarrow> True | _ \<Rightarrow> False)"

subsection \<open>EmbeddingService and VectorStore\<close>

definition generate_embeddings :: "providers \<Rightarrow> string list \<Rightarrow> string \<Rightarrow> vector list result" where
  "generate_embeddings P texts model_name =
     (embeddings_create P model_name texts, [EmbeddingsCreate model_name texts])"

definition vector_store_query :: "providers \<Rightarrow> string \<Rightarrow> vector \<Rightarrow> nat \<Rightarrow> query_results option result" where
  "vector_store_query P collection_name query_embedding n_results =
     (collection_query P collection_name query_embedding n_results,
      [CollectionQuery collection_name query_embedding n_results])"

subsection \<open>LLMService\<close>

definition perform_web_search :: "providers \<Rightarrow> string \<Rightarrow> string option \<Rightarrow> string result" where
  "perform_web_search P query api_key =
     and_then (requests_get P query api_key, [RequestsGet query api_key])
       (\<lambda>results.
          let snippets = map (\<lambda>result. case snippet result of None \<Rightarrow> [] | Some s \<Rightarrow> s)
                           (take 3 (case organic_results results of None \<Rightarrow> [] | Some rs \<Rightarrow> rs))
          in (Inr (py_join newline snippets), []))"

definition default_prompt :: string where
  "default_prompt = ''You are a helpful assistant.''"

text \<open>The prompt of \<^verbatim>\<open>generate_response\<close> after its two replacements.\<close>

definition substituted_prompt :: "config \<Rightarrow> string \<Rightarrow> string \<Rightarrow> string" where
  "substituted_prompt cfg query context =
     (let prompt0 = (case prompt cfg of None \<Rightarrow> default_prompt | Some p \<Rightarrow> p);
          prompt1 = py_replace prompt0 ''{context}'' context
      in py_replace prompt1 ''{query}'' query)"

definition generate_response :: "providers \<Rightarrow> string \<Rightarrow> string \<Rightarrow> config \<Rightarrow> string result" where
  "generate_response P query context cfg =
     and_then
       (if useWebSearch cfg = Some True
        then and_then (perform_web_search P query (webSearchApiKey cfg))
               (\<lambda>search_results.
                  (Inr (substituted_prompt cfg query context
                        @ newline @ newline @ ''Web Search Results:'' @ newline @ search_results), []))
        else (Inr (substituted_prompt cfg query context), []))
       (\<lambda>final_prompt.
          let model_name = (case model cfg of None \<Rightarrow> ''gpt-4o-mini'' | Some m \<Rightarrow> m);
              messages = [(''system'', final_prompt), (''user'', query)];
              temp = (case temperature cfg of None \<Rightarrow> 7 / 10 | Some t \<Rightarrow> t)
          in (chat_completions_create P model_name messages temp,
              [ChatCompletionsCreate model_name messages temp]))"

subsection \<open>WorkflowEngine\<close>

definition find_node_by_type :: "node list \<Rightarrow> component_type \<Rightarrow> node option" where
  "find_node_by_type ns t = find (\<lambda>n. node_type n = t) ns"

text \<open>
  The last two statements of \<^verbatim>\<open>_retrieve_context\<close>: the first list of documents joined
  with newlines when the store's answer and its \<^verbatim>\<open>documents\<close> are not empty, the empty
  string otherwise.
\<close>

definition documents_context :: "query_results option \<Rightarrow> string" where
  "documents_context results =
     (case results of
        None \<Rightarrow> []
      | Some r \<Rightarrow> (case documents r of
                     None \<Rightarrow> []
                   | Some [] \<Rightarrow> []
                   | Some (d # _) \<Rightarrow> py_join newline d))"

definition retrieve_context :: "providers \<Rightarrow> string \<Rightarrow> string \<Rightarrow> string result" where
  "retrieve_context P stack_id query =
     and_then (generate_embeddings P [query] ''text-embedding-3-large'')
       (\<lambda>embeddings. case embeddings of
          [] \<Rightarrow> (Inl IndexError, [])
        | query_embedding # _ \<Rightarrow>
            and_then (vector_store_query P (''stack_'' @ stack_id) query_embedding 3)
              (\<lambda>results. (Inr (documents_context results), [])))"

text \<open>The dictionary \<^verbatim>\<open>execute\<close> returns, as an association list of keys and values.\<close>

datatype json = JStr string | JBool bool | JObj "(string \<times> json) list"

definition result_dict :: "string \<Rightarrow> bool \<Rightarrow> (string \<times> json) list" where
  "result_dict response context_used =
     [(''response'', JStr response), (''metadata'', JObj [(''context_used'', JBool context_used)])]"

definition execute :: "providers \<Rightarrow> workflow \<Rightarrow> string \<Rightarrow> string \<Rightarrow> (string \<times> json) list result" where
  "execute P workflow_data query stack_id =
     (let kb_node = find_node_by_type (nodes workflow_data) KnowledgeBase;
          llm_node = find_node_by_type (nodes workflow_data) LLMEngine
      in and_then
           (if kb_node \<noteq> None then retrieve_context P stack_id query else (Inr [], []))
           (\<lambda>context. case llm_node of
              None \<Rightarrow> (Inl (ValueError ''LLM node not found''), [])
            | Some n \<Rightarrow>
                (case node_config n of
                   None \<Rightarrow> (Inl (KeyError ''config''), [])
                 | Some cfg \<Rightarrow>
                     and_then (generate_response P query context cfg)
                       (\<lambda>response. (Inr (result_dict response (context \<noteq> [])), [])))))"

section \<open>The frontend: validation and the chat\<close>

subsection \<open>WorkflowEditor: validateWorkflow and buildStack\<close>

definition validateWorkflow :: "node list \<Rightarrow> edge list \<Rightarrow> bool" where
  "validateWorkflow ns es =
     (let hasUserQuery = list_ex (\<lambda>n. node_type n = UserQuery) ns;
          hasLLM = list_ex (\<lambda>n. node_type n = LLMEngine) ns;
          hasOutput = list_ex (\<lambda>n. node_type n = Output) ns
      in hasUserQuery \<and> hasLLM \<and> hasOutput \<and> length es > 0)"

text \<open>The arrows of the alert's message are written \<^verbatim>\<open>->\<close> here.\<close>

datatype ui_effect = Alert string | SaveWorkflow

record editor =
  editor_nodes :: "node list"
  editor_edges :: "edge list"
  showChat :: bool

definition buildStack :: "editor \<Rightarrow> editor \<times> ui_effect list" where
  "buildStack ed =
     (if \<not> validateWorkflow (editor_nodes ed) (editor_edges ed)
      then (ed, [Alert ''Invalid workflow! Ensure you have: User Query -> LLM Engine -> Output''])
      else (ed\<lparr>showChat := True\<rparr>, [SaveWorkflow]))"

subsection \<open>The documented validation rules\<close>

text \<open>
  The architecture notes give the validation rules as a function of the nodes and edges
  that returns \<^verbatim>\<open>{valid, error}\<close>; the per-node check \<^verbatim>\<open>validateNodeConfig\<close> it calls is
  a parameter here.
\<close>

record validation =
  valid :: bool
  error :: "string option"

definition validateWorkflow_rules :: "(node \<Rightarrow> bool) \<Rightarrow> node list \<Rightarrow> edge list \<Rightarrow> validation" where
  "validateWorkflow_rules validateNodeConfig ns es =
     (let hasUserQuery = list_ex (\<lambda>n. node_type n = UserQuery) ns;
          hasLLM = list_ex (\<lambda>n. node_type n = LLMEngine) ns;
          hasOutput = list_ex (\<lambda>n. node_type n = Output) ns
      in if \<not> hasUserQuery \<or> \<not> hasLLM \<or> \<not> hasOutput
         then \<lparr>valid = False, error = Some ''Missing required components''\<rparr>
         else if length es = 0
         then \<lparr>valid = False, error = Some ''No connections between components''\<rparr>
         else (case find (\<lambda>n. \<not> validateNodeConfig n) ns of
                 Some n \<Rightarrow> \<lparr>valid = False, error = Some (''Invalid config for '' @ node_id n)\<rparr>
               | None \<Rightarrow> \<lparr>valid = True, error = None\<rparr>))"

text \<open>
  Modelled from the spec: \<^verbatim>\<open>validateNodeConfig\<close> is called by the documented rules and
  defined nowhere in the repository. The specification's data model requires that an
  \<^verbatim>\<open>LLMEngine\<close> configuration carries a non-empty \<^verbatim>\<open>model\<close> and \<^verbatim>\<open>apiKey\<close> and that a
  \<^verbatim>\<open>KnowledgeBase\<close> configuration carries a non-empty \<^verbatim>\<open>embeddingModel\<close>.
\<close>

definition non_empty :: "string option \<Rightarrow> bool" where
  "non_empty v = (case v of None \<Rightarrow> False | Some s \<Rightarrow> s \<noteq> [])"

definition validateNodeConfig :: "node \<Rightarrow> bool" where
  "validateNodeConfig n =
     (case node_type n of
        LLMEngine \<Rightarrow>
          (case node_config n of
             None \<Rightarrow> False
           | Some cfg \<Rightarrow> non_empty (model cfg) \<and> non_empty (apiKey cfg))
      | KnowledgeBase \<Rightarrow>
          (case node_config n of
             None \<Rightarrow> False
           | Some cfg \<Rightarrow> non_empty (embeddingModel cfg))
      | _ \<Rightarrow> True)"

subsection \<open>ChatInterface: executeWorkflow\<close>

text \<open>How a template literal prints a value that may be \<^verbatim>\<open>undefined\<close>.\<close>

definition js_string :: "('a \<Rightarrow> string) \<Rightarrow> 'a option \<Rightarrow> string" where
  "js_string to_string v = (case v of None \<Rightarrow> ''undefined'' | Some x \<Rightarrow> to_string x)"

text \<open>
  The local variables \<^verbatim>\<open>context\<close> and \<^verbatim>\<open>prompt\<close> of \<^verbatim>\<open>executeWorkflow\<close> at its
  \<^verbatim>\<open>return\<close>, and the returned string. Reading \<^verbatim>\<open>kbConfig.uploadedFiles\<close> or
  \<^verbatim>\<open>llmConfig.prompt\<close> throws when the node has no \<^verbatim>\<open>data.config\<close>. The rendering of a
  number as text (\<^verbatim>\<open>Number::toString\<close>) is the parameter \<open>number_to_string\<close>. The pause
  before the \<^verbatim>\<open>return\<close> has no effect on the result.
\<close>

definition kb_context :: "node option \<Rightarrow> error + string" where
  "kb_context knowledgeBaseNode =
     (case knowledgeBaseNode of
        None \<Rightarrow> Inr []
      | Some kb \<Rightarrow>
          (case node_config kb of
             None \<Rightarrow> Inl (TypeError ''uploadedFiles'')
           | Some kbConfig \<Rightarrow>
               (case uploadedFiles kbConfig of
                  None \<Rightarrow> Inr []
                | Some files \<Rightarrow>
                    if length files > 0
                    then Inr (''[Context from '' @ string_of_nat (length files) @ '' document(s)]'')
                    else Inr [])))"

definition executeWorkflow_locals ::
  "(real \<Rightarrow> string) \<Rightarrow> workflow \<Rightarrow> string \<Rightarrow> error + (string \<times> string \<times> string)" where
  "executeWorkflow_locals number_to_string workflow query =
     (let userQueryNode = find (\<lambda>n. node_type n = UserQuery) (nodes workflow);
          knowledgeBaseNode = find (\<lambda>n. node_type n = KnowledgeBase) (nodes workflow);
          llmNode = find (\<lambda>n. node_type n = LLMEngine) (nodes workflow);
          outputNode = find (\<lambda>n. node_type n = Output) (nodes workflow)
      in case llmNode of
           None \<Rightarrow> Inl (Error ''LLM Engine component is required'')
         | Some llm \<Rightarrow>
             (case kb_context knowledgeBaseNode of
                Inl e \<Rightarrow> Inl e
              | Inr context \<Rightarrow>
                  (case node_config llm of
                     None \<Rightarrow> Inl (TypeError ''prompt'')
                   | Some llmConfig \<Rightarrow>
                       (let prompt0 = (case prompt llmConfig of
                                         None \<Rightarrow> ''You are a helpful assistant.''
                                       | Some p \<Rightarrow>
                                           if p = [] then ''You are a helpful assistant.'' else p);
                            prompt1 = (if context \<noteq> []
                                       then js_replace prompt0 ''{context}'' context else prompt0);
                            prompt2 = js_replace prompt1 ''{query}'' query
                        in Inr (context, prompt2,
                             ''This is a simulated response to: '' @ [CHR 0x22] @ query @ [CHR 0x22]
                             @ newline @ newline
                             @ ''To enable real LLM responses, you would need to:'' @ newline
                             @ ''1. Set up a backend API endpoint'' @ newline
                             @ ''2. Configure your OpenAI API key'' @ newline
                             @ ''3. Connect the workflow execution to the backend'' @ newline @ newline
                             @ ''Workflow configuration:'' @ newline
                             @ ''- Model: '' @ js_string id (model llmConfig) @ newline
                             @ ''- Temperature: ''
                             @ js_string number_to_string (temperature llmConfig) @ newline
                             @ ''- Web Search: ''
                             @ (if useWebSearch llmConfig = Some True then ''Enabled'' else ''Disabled'')
                             @ newline
                             @ (if context \<noteq> [] then ''- Using context from knowledge base''
                                else []))))))"

definition executeWorkflow :: "(real \<Rightarrow> string) \<Rightarrow> workflow \<Rightarrow> string \<Rightarrow> error + string" where
  "executeWorkflow number_to_string workflow query =
     (case executeWorkflow_locals number_to_string workflow query of
        Inl e \<Rightarrow> Inl e
      | Inr (context, final_prompt, response) \<Rightarrow> Inr response)"

subsection \<open>ChatInterface: sendMessage and the datastore\<close>

record chat_message =
  msg_stack_id :: string
  msg_session_id :: string
  role :: string
  content :: string
  metadata_error :: bool

text \<open>
  The datastore client: \<^verbatim>\<open>supabase.from(table).insert(row).select().single()\<close> answers
  with \<^verbatim>\<open>{data, error}\<close>. Every insertion an invocation makes is recorded with its table.
\<close>

type_synonym insert_fn = "string \<Rightarrow> chat_message \<Rightarrow> chat_message option \<times> error option"

datatype store_call = Insert string chat_message

record chat_state =
  messages :: "chat_message list"
  input :: string
  loading :: bool

definition add_message :: "chat_message option \<Rightarrow> chat_state \<Rightarrow> chat_state" where
  "add_message saved st =
     (case saved of None \<Rightarrow> st | Some m \<Rightarrow> st\<lparr>messages := messages st @ [m]\<rparr>)"

text \<open>The \<^verbatim>\<open>try\<close> block of \<^verbatim>\<open>sendMessage\<close>: its outcome, the state and the insertions made.\<close>

definition sendMessage_try ::
  "insert_fn \<Rightarrow> (real \<Rightarrow> string) \<Rightarrow> string \<Rightarrow> string \<Rightarrow> workflow \<Rightarrow> string \<Rightarrow> chat_state
   \<Rightarrow> (error + unit) \<times> chat_state \<times> store_call list" where
  "sendMessage_try db_insert number_to_string stackId sessionId workflow text st =
     (let userMessage = \<lparr>msg_stack_id = stackId, msg_session_id = sessionId, role = ''user'',
                          content = text, metadata_error = False\<rparr>;
          calls1 = [Insert ''chat_messages'' userMessage]
      in case db_insert ''chat_messages'' userMessage of
           (savedMessage, Some saveError) \<Rightarrow> (Inl saveError, st, calls1)
         | (savedMessage, None) \<Rightarrow>
             (let st1 = add_message savedMessage st
              in case executeWorkflow number_to_string workflow text of
                   Inl e \<Rightarrow> (Inl e, st1, calls1)
                 | Inr response \<Rightarrow>
                     (let assistantMessage =
                            \<lparr>msg_stack_id = stackId, msg_session_id = sessionId,
                             role = ''assistant'', content = response, metadata_error = False\<rparr>;
                          calls2 = calls1 @ [Insert ''chat_messages'' assistantMessage]
                      in case db_insert ''chat_messages'' assistantMessage of
                           (assistantSaved, Some assistantError) \<Rightarrow> (Inl assistantError, st1, calls2)
                         | (assistantSaved, None) \<Rightarrow>
                             (Inr (), add_message assistantSaved st1, calls2))))"

definition sendMessage ::
  "insert_fn \<Rightarrow> (real \<Rightarrow> string) \<Rightarrow> string \<Rightarrow> string \<Rightarrow> workflow \<Rightarrow> chat_state
   \<Rightarrow> chat_state \<times> store_call list" where
  "sendMessage db_insert number_to_string stackId sessionId workflow st =
     (if js_trim (input st) = [] \<or> loading st then (st, [])
      else
        (case sendMessage_try db_insert number_to_string stackId sessionId workflow (js_trim (input st))
                (st\<lparr>loading := True, input := []\<rparr>) of
           (Inr u, st', calls) \<Rightarrow> (st'\<lparr>loading := False\<rparr>, calls)
         | (Inl e, st', calls) \<Rightarrow>
             (let errorMessage =
                    \<lparr>msg_stack_id = stackId, msg_session_id = sessionId, role = ''assistant'',
                     content = ''Sorry, there was an error processing your request. Please check your API keys and configuration.'',
                     metadata_error = True\<rparr>
              in case db_insert ''chat_messages'' errorMessage of
                   (errorSaved, ignored) \<Rightarrow>
                     ((add_message errorSaved st')\<lparr>loading := False\<rparr>,
                      calls @ [Insert ''chat_messages'' errorMessage]))))"

section \<open>Example graphs and providers\<close>

definition empty_config :: config where
  "empty_config =
     \<lparr>userQuery = None, embeddingModel = None, apiKey = None, uploadedFiles = None,
      model = None, prompt = None, temperature = None, useWebSearch = None,
      webSearchTool = None, webSearchApiKey = None, displayMode = None\<rparr>"

definition llm_config :: config where
  "llm_config = empty_config\<lparr>model := Some ''m1'', apiKey := Some ''k'',
                             prompt := Some ''Use {context} for {query}'',
                             useWebSearch := Some False\<rparr>"

text \<open>An engine's configuration as the component library creates it: the key is still empty.\<close>

definition unconfigured_llm_config :: config where
  "unconfigured_llm_config =
     empty_config\<lparr>model := Some ''gpt-4o-mini'', apiKey := Some [],
                  prompt := Some ''You are a helpful PDF assistant.'',
                  useWebSearch := Some True, webSearchTool := Some ''serpapi'',
                  webSearchApiKey := Some []\<rparr>"

definition searching_llm_config :: config where
  "searching_llm_config =
     empty_config\<lparr>model := Some ''m1'', apiKey := Some ''k'', prompt := Some ''Answer {query}'',
                  useWebSearch := Some True, webSearchApiKey := Some ''s''\<rparr>"

definition user_query_node :: node where
  "user_query_node =
     \<lparr>node_id = ''userQuery-1'', node_type = UserQuery,
      node_config = Some (empty_config\<lparr>userQuery := Some []\<rparr>)\<rparr>"

definition knowledge_base_node :: node where
  "knowledge_base_node =
     \<lparr>node_id = ''knowledgeBase-1'', node_type = KnowledgeBase,
      node_config = Some (empty_config\<lparr>embeddingModel := Some ''text-embedding-3-large'',
                                        apiKey := Some [], uploadedFiles := Some []\<rparr>)\<rparr>"

definition llm_node :: node where
  "llm_node = \<lparr>node_id = ''llmEngine-1'', node_type = LLMEngine, node_config = Some llm_config\<rparr>"

definition unconfigured_llm_node :: node where
  "unconfigured_llm_node =
     \<lparr>node_id = ''llmEngine-2'', node_type = LLMEngine,
      node_config = Some unconfigured_llm_config\<rparr>"

text \<open>An engine node stored without \<^verbatim>\<open>data.config\<close>.\<close>

definition bare_llm_node :: node where
  "bare_llm_node = \<lparr>node_id = ''llmEngine-4'', node_type = LLMEngine, node_config = None\<rparr>"

definition output_node :: node where
  "output_node =
     \<lparr>node_id = ''output-1'', node_type = Output,
      node_config = Some (empty_config\<lparr>displayMode := Some ''text''\<rparr>)\<rparr>"

definition an_edge :: edge where
  "an_edge = \<lparr>edge_id = ''e1'', source = ''userQuery-1'', target = ''llmEngine-1''\<rparr>"

definition kb_llm_workflow :: workflow where
  "kb_llm_workflow = \<lparr>nodes = [knowledge_base_node, llm_node], edges = []\<rparr>"

definition llm_only_workflow :: workflow where
  "llm_only_workflow = \<lparr>nodes = [llm_node], edges = []\<rparr>"

definition bare_llm_workflow :: workflow where
  "bare_llm_workflow = \<lparr>nodes = [user_query_node, bare_llm_node, output_node], edges = [an_edge]\<rparr>"

definition kb_only_workflow :: workflow where
  "kb_only_workflow = \<lparr>nodes = [knowledge_base_node], edges = []\<rparr>"

definition unconfigured_workflow :: workflow where
  "unconfigured_workflow =
     \<lparr>nodes = [user_query_node, unconfigured_llm_node, output_node], edges = [an_edge]\<rparr>"

text \<open>Providers that all answer, and variants in which one of them fails.\<close>

definition answering :: providers where
  "answering =
     \<lparr>embeddings_create = (\<lambda>m texts. Inr [[1, 0]]),
      collection_query = (\<lambda>name v k. Inr (Some \<lparr>documents = Some [[''the answer is 4'']]\<rparr>)),
      requests_get = (\<lambda>q key. Inr \<lparr>organic_results =
                        Some [\<lparr>snippet = Some ''s1''\<rparr>, \<lparr>snippet = None\<rparr>,
                              \<lparr>snippet = Some ''s3''\<rparr>, \<lparr>snippet = Some ''s4''\<rparr>]\<rparr>),
      chat_completions_create = (\<lambda>m messages t. Inr ''4'')\<rparr>"

definition embedding_down :: providers where
  "embedding_down = answering\<lparr>embeddings_create := (\<lambda>m texts. Inl (ProviderError ''embedding failed''))\<rparr>"


definition search_down :: providers where
  "search_down = answering\<lparr>requests_get := (\<lambda>q key. Inl (ProviderError ''search failed''))\<rparr>"


text \<open>A datastore that saves every row, and one that refuses every row.\<close>

definition saving :: insert_fn where
  "saving = (\<lambda>table row. (Some row, None))"

definition refusing :: insert_fn where
  "refusing = (\<lambda>table row. (None, Some (ProviderError ''insert failed'')))"

definition is_trace_insert :: "store_call \<Rightarrow> bool" where
  "is_trace_insert c = (case c of Insert table row \<Rightarrow> table = ''execution_logs'')"

section \<open>Chunking: the loop is the greedy grouping\<close>

lemma acc_len_simps [simp]:
  "acc_len [] = 0"
  "acc_len (w # ws) = int (length w) + 1 + acc_len ws"
  "acc_len (xs @ ys) = acc_len xs + acc_len ys"
  by (simp_all add: acc_len_def)

lemma acc_len_nonneg: "0 \<le> acc_len ws"
  by (induction ws) auto

lemma chunk_loop_greedy:
  "sz = acc_len cur \<Longrightarrow>
   chunk_loop n chunks cur sz ws = chunks @ map (py_join '' '') (greedy n cur ws)"
proof (induction ws arbitrary: chunks cur sz)
  case Nil
  then show ?case by simp
next
  case (Cons w ws)
  let ?cur = "cur @ [w]"
  have sz': "sz + (int (length w) + 1) = acc_len ?cur"
    using Cons.prems by simp
  show ?case
  proof (cases "n \<le> acc_len ?cur")
    case True
    have "chunk_loop n (chunks @ [py_join '' '' ?cur]) [] 0 ws =
          (chunks @ [py_join '' '' ?cur]) @ map (py_join '' '') (greedy n [] ws)"
      by (rule Cons.IH) simp
    with True sz' show ?thesis by (simp add: Let_def)
  next
    case False
    have "chunk_loop n chunks ?cur (acc_len ?cur) ws =
          chunks @ map (py_join '' '') (greedy n ?cur ws)"
      by (rule Cons.IH) simp
    with False sz' show ?thesis by (simp add: Let_def)
  qed
qed

lemma chunk_text_groups:
  "chunk_text text n = map (py_join '' '') (greedy n [] (py_split text))"
  by (simp add: chunk_text_def chunk_loop_greedy)

lemma greedy_concat: "concat (greedy n cur ws) = cur @ ws"
  by (induction ws arbitrary: cur) auto

lemma greedy_nonempty: "[] \<notin> set (greedy n cur ws)"
  by (induction ws arbitrary: cur) auto

lemma greedy_full: "g \<in> set (butlast (greedy n cur ws)) \<Longrightarrow> n \<le> acc_len g"
  by (induction ws arbitrary: cur) (auto split: if_splits)

lemma greedy_minimal:
  "cur = [] \<or> acc_len cur < n \<Longrightarrow> g \<in> set (greedy n cur ws) \<Longrightarrow>
   butlast g = [] \<or> acc_len (butlast g) < n"
proof (induction ws arbitrary: cur)
  case Nil
  then have g: "g = cur" "cur \<noteq> []" by (auto split: if_splits)
  then obtain xs x where cur: "cur = xs @ [x]" by (cases cur rule: rev_cases) auto
  with Nil.prems(1) g have "acc_len xs < n" using acc_len_nonneg [of "[x]"] by auto
  with g cur show ?case by simp
next
  case (Cons w ws)
  show ?case
  proof (cases "n \<le> acc_len (cur @ [w])")
    case True
    with Cons.prems(2) consider "g = cur @ [w]" | "g \<in> set (greedy n [] ws)" by auto
    then show ?thesis
    proof cases
      case 1
      with Cons.prems(1) show ?thesis by auto
    next
      case 2
      then show ?thesis using Cons.IH [of "[]"] by simp
    qed
  next
    case False
    with Cons.prems(2) have "g \<in> set (greedy n (cur @ [w]) ws)" by simp
    moreover from False have "acc_len (cur @ [w]) < n" by simp
    ultimately show ?thesis using Cons.IH [of "cur @ [w]"] by blast
  qed
qed

lemma acc_len_take_mono: "k \<le> m \<Longrightarrow> acc_len (take k g) \<le> acc_len (take m g)"
proof -
  assume "k \<le> m"
  then have "take m g = take k g @ take (m - k) (drop k g)"
    by (metis le_add_diff_inverse take_add)
  then show ?thesis using acc_len_nonneg [of "take (m - k) (drop k g)"] by simp
qed

lemma py_join_append:
  "xs \<noteq> [] \<Longrightarrow> ys \<noteq> [] \<Longrightarrow> py_join sep (xs @ ys) = py_join sep xs @ sep @ py_join sep ys"
  by (induction sep xs rule: py_join.induct) (auto simp: neq_Nil_conv)

lemma py_join_concat:
  "[] \<notin> set gs \<Longrightarrow> py_join sep (map (py_join sep) gs) = py_join sep (concat gs)"
proof (induction gs)
  case Nil
  then show ?case by simp
next
  case (Cons g gs)
  show ?case
  proof (cases gs)
    case Nil
    then show ?thesis by simp
  next
    case (Cons h hs)
    with Cons.prems have "g \<noteq> []" "concat gs \<noteq> []" by auto
    with Cons.IH Cons.prems Cons show ?thesis by (simp add: py_join_append)
  qed
qed

lemma length_py_join: "ws \<noteq> [] \<Longrightarrow> int (length (py_join '' '' ws)) + 1 = acc_len ws"
  by (induction "'' ''" ws rule: py_join.induct) auto

lemma split_loop_words:
  "\<forall>c\<in>set cur. \<not> is_space c \<Longrightarrow> w \<in> set (split_loop cur s) \<Longrightarrow>
   w \<noteq> [] \<and> (\<forall>c\<in>set w. \<not> is_space c)"
proof (induction s arbitrary: cur)
  case Nil
  then show ?case by (cases "cur = []") auto
next
  case (Cons c cs)
  show ?case
  proof (cases "is_space c")
    case False
    with Cons.prems have "w \<in> set (split_loop (cur @ [c]) cs)" by simp
    moreover from False Cons.prems(1) have "\<forall>x\<in>set (cur @ [c]). \<not> is_space x" by simp
    ultimately show ?thesis using Cons.IH by blast
  next
    case True
    with Cons.prems(2) consider "w = cur" "cur \<noteq> []" | "w \<in> set (split_loop [] cs)"
      by (cases "cur = []") auto
    then show ?thesis
    proof cases
      case 1
      with Cons.prems(1) show ?thesis by simp
    next
      case 2
      then show ?thesis using Cons.IH [of "[]"] by simp
    qed
  qed
qed

subsection \<open>Joining the words is normalising the whitespace\<close>

lemma split_loop_spaces:
  "\<forall>c\<in>set t. is_space c \<Longrightarrow> split_loop cur t = (if cur = [] then [] else [cur])"
  by (induction t arbitrary: cur) auto

lemma split_loop_trailing:
  "\<forall>c\<in>set t. is_space c \<Longrightarrow> split_loop cur (s @ t) = split_loop cur s"
proof (induction s arbitrary: cur)
  case Nil
  then show ?case by (simp add: split_loop_spaces)
next
  case (Cons c cs)
  then show ?case by simp
qed

lemma split_loop_leading:
  "split_loop [] (dropWhile is_space s) = split_loop [] s"
  by (induction s) auto

lemma split_loop_nonempty:
  "cur \<noteq> [] \<or> (\<exists>c\<in>set s. \<not> is_space c) \<Longrightarrow> split_loop cur s \<noteq> []"
  by (induction cur s rule: split_loop.induct) auto

lemma py_join_Cons: "xs \<noteq> [] \<Longrightarrow> py_join sep (x # xs) = x @ sep @ py_join sep xs"
  by (cases xs) auto

lemma last_dropWhile_nonempty:
  "dropWhile P xs \<noteq> [] \<Longrightarrow> last (dropWhile P xs) = last xs"
  by (induction xs) (auto split: if_splits)

lemma join_split_collapse:
  "s = [] \<or> \<not> is_space (last s) \<Longrightarrow> cur = [] \<longrightarrow> s = [] \<or> \<not> is_space (hd s) \<Longrightarrow>
   py_join '' '' (split_loop cur s) = cur @ collapse_ws s"
proof (induction s arbitrary: cur rule: length_induct)
  case (1 s)
  show ?case
  proof (cases s)
    case Nil
    then show ?thesis by simp
  next
    case (Cons c cs)
    show ?thesis
    proof (cases "is_space c")
      case False
      have "py_join '' '' (split_loop (cur @ [c]) cs) = (cur @ [c]) @ collapse_ws cs"
        using 1 Cons by (intro 1(1) [rule_format]) (auto split: if_splits)
      with False Cons show ?thesis by simp
    next
      case True
      with 1(3) Cons have cur: "cur \<noteq> []" by auto
      let ?t = "dropWhile is_space cs"
      from 1(2) Cons True have lastcs: "cs \<noteq> []" "\<not> is_space (last cs)" by (auto split: if_splits)
      then have ex: "\<exists>x\<in>set cs. \<not> is_space x" using last_in_set by blast
      then have t: "?t \<noteq> []" by (simp add: dropWhile_eq_Nil_conv)
      then have hd: "\<not> is_space (hd ?t)" using hd_dropWhile by blast
      from t lastcs have lastt: "\<not> is_space (last ?t)" by (simp add: last_dropWhile_nonempty)
      have len: "length ?t < length s" using Cons by (simp add: length_dropWhile_le less_Suc_eq_le)
      have "py_join '' '' (split_loop [] ?t) = [] @ collapse_ws ?t"
        using len lastt hd by (intro 1(1) [rule_format]) auto
      then have ih: "py_join '' '' (split_loop [] cs) = collapse_ws ?t"
        by (simp add: split_loop_leading)
      from ex have "split_loop [] cs \<noteq> []" by (intro split_loop_nonempty) simp
      with True Cons cur ih show ?thesis by (simp add: py_join_Cons)
    qed
  qed
qed

lemma join_split_normalize: "py_join '' '' (py_split s) = normalize_ws s"
proof -
  let ?l = "dropWhile is_space s"
  let ?r = "rev (dropWhile is_space (rev ?l))"
  have dec: "?l = ?r @ rev (takeWhile is_space (rev ?l))"
    by (metis rev_append rev_rev_ident takeWhile_dropWhile_id)
  moreover have "\<forall>c\<in>set (rev (takeWhile is_space (rev ?l))). is_space c"
    by (auto dest: set_takeWhileD)
  ultimately have "split_loop [] ?l = split_loop [] ?r"
    by (metis split_loop_trailing)
  then have split: "py_split s = split_loop [] ?r"
    by (simp add: py_split_def split_loop_leading)
  have r_last: "?r = [] \<or> \<not> is_space (last ?r)"
    by (metis hd_dropWhile last_rev rev_is_Nil_conv)
  have r_hd: "?r = [] \<or> \<not> is_space (hd ?r)"
  proof (cases "?r = []")
    case True
    then show ?thesis by simp
  next
    case False
    with dec have "hd ?l = hd ?r" by (metis hd_append2)
    moreover have "?l \<noteq> []"
    proof
      assume "?l = []"
      then have "?r = []" by (metis dropWhile.simps(1) rev.simps(1))
      with False show False by contradiction
    qed
    then have "\<not> is_space (hd ?l)" by (rule hd_dropWhile)
    ultimately show ?thesis by simp
  qed
  from join_split_collapse [of ?r "[]"] r_last r_hd
  show ?thesis by (simp add: split normalize_ws_def strip_ws_def)
qed

text \<open>
  Claim C3. \<^verbatim>\<open>chunk_text\<close> is a function of the text and the chunk size; joining the
  chunks it returns with single spaces gives the whitespace-normalised text (the text
  stripped, with every run of whitespace collapsed to one space), so no word is lost,
  repeated or moved; the empty text has no chunk.
\<close>

theorem chunk_text_join_normalized:
  "py_join '' '' (chunk_text text chunk_size) = normalize_ws text
   \<and> chunk_text [] chunk_size = []
   \<and> (\<forall>text' chunk_size'. text' = text \<and> chunk_size' = chunk_size
         \<longrightarrow> chunk_text text' chunk_size' = chunk_text text chunk_size)"
proof -
  have "py_join '' '' (chunk_text text chunk_size)
        = py_join '' '' (concat (greedy chunk_size [] (py_split text)))"
    unfolding chunk_text_groups by (rule py_join_concat) (rule greedy_nonempty)
  then have "py_join '' '' (chunk_text text chunk_size) = normalize_ws text"
    by (simp add: greedy_concat join_split_normalize)
  moreover have "chunk_text [] chunk_size = []"
    by (simp add: chunk_text_def py_split_def)
  ultimately show ?thesis by simp
qed

theorem chunk_text_join_normalized_witness:
  "py_join '' '' (chunk_text ''  aa bb   cc d '' 6) = ''aa bb cc d''
   \<and> normalize_ws ''  aa bb   cc d '' = ''aa bb cc d''
   \<and> chunk_text ''  aa bb   cc d '' 6 = [''aa bb'', ''cc d'']"
proof -
  have n: "normalize_ws ''  aa bb   cc d '' = ''aa bb cc d''"
    by (simp add: normalize_ws_def strip_ws_def is_space_def whitespace_def)
  have c: "chunk_text ''  aa bb   cc d '' 6 = [''aa bb'', ''cc d'']"
    by (simp add: chunk_text_def py_split_def is_space_def whitespace_def)
  have "py_join '' '' (chunk_text ''  aa bb   cc d '' 6) = normalize_ws ''  aa bb   cc d ''"
    using chunk_text_join_normalized [of "''  aa bb   cc d ''" 6] by (rule conjunct1)
  with n c show ?thesis by (simp only: simp_thms)
qed

text \<open>
  Claim C4. The chunks are the greedy grouping of the whitespace-delimited words: each chunk
  is a group of consecutive words joined by spaces, the groups in order make up all the
  words, no group is empty, every group but the last has reached the chunk size, and no
  group reached it before its last word. In characters: every chunk but the last has
  length plus one at least the chunk size.
\<close>

theorem chunk_text_greedy:
  "\<exists>gs. chunk_text text n = map (py_join '' '') gs
     \<and> concat gs = py_split text
     \<and> (\<forall>w\<in>set (py_split text). w \<noteq> [] \<and> (\<forall>c\<in>set w. \<not> is_space c))
     \<and> [] \<notin> set gs
     \<and> (\<forall>g\<in>set (butlast gs). n \<le> acc_len g)
     \<and> (\<forall>g\<in>set gs. \<forall>k. 0 < k \<and> k < length g \<longrightarrow> acc_len (take k g) < n)
     \<and> (\<forall>c\<in>set (butlast (chunk_text text n)). n \<le> int (length c) + 1)"
proof -
  let ?gs = "greedy n [] (py_split text)"
  have words: "\<forall>w\<in>set (py_split text). w \<noteq> [] \<and> (\<forall>c\<in>set w. \<not> is_space c)"
    unfolding py_split_def using split_loop_words [of "[]"] by simp
  have full: "\<forall>g\<in>set (butlast ?gs). n \<le> acc_len g"
    using greedy_full by blast
  have minimal: "\<forall>g\<in>set ?gs. \<forall>k. 0 < k \<and> k < length g \<longrightarrow> acc_len (take k g) < n"
  proof (intro ballI allI impI)
    fix g k assume g: "g \<in> set ?gs" and k: "0 < k \<and> k < length g"
    from g have "butlast g = [] \<or> acc_len (butlast g) < n"
      by (rule greedy_minimal [rotated]) simp
    moreover from k have "butlast g \<noteq> []" by (cases g rule: rev_cases) auto
    moreover from k have "acc_len (take k g) \<le> acc_len (take (length g - 1) g)"
      by (intro acc_len_take_mono) arith
    ultimately show "acc_len (take k g) < n" by (simp add: butlast_conv_take)
  qed
  have strs: "\<forall>c\<in>set (butlast (chunk_text text n)). n \<le> int (length c) + 1"
  proof
    fix c assume "c \<in> set (butlast (chunk_text text n))"
    then obtain g where g: "g \<in> set (butlast ?gs)" and c: "c = py_join '' '' g"
      by (auto simp: chunk_text_groups map_butlast [symmetric])
    from g have "g \<in> set ?gs" by (rule in_set_butlastD)
    with greedy_nonempty have "g \<noteq> []" by metis
    with c have "int (length c) + 1 = acc_len g" by (simp add: length_py_join)
    with g full show "n \<le> int (length c) + 1" by simp
  qed
  from chunk_text_groups greedy_concat [of n "[]"] words greedy_nonempty full minimal strs
  show ?thesis by (intro exI [of _ ?gs]) simp
qed

theorem chunk_text_greedy_witness:
  "butlast (chunk_text ''aa bb cc d'' 6) = [''aa bb'']
   \<and> (6::int) \<le> int (length ''aa bb'') + 1
   \<and> chunk_text ''aa bb cc d'' 6 = [''aa bb'', ''cc d'']"
proof -
  have c: "chunk_text ''aa bb cc d'' 6 = [''aa bb'', ''cc d'']"
    by (simp add: chunk_text_def py_split_def is_space_def whitespace_def)
  from chunk_text_greedy [of "''aa bb cc d''" 6]
  have "\<forall>c\<in>set (butlast (chunk_text ''aa bb cc d'' 6)). 6 \<le> int (length c) + 1"
    by blast
  with c show ?thesis by simp
qed

section \<open>The reference backend\<close>

lemma and_then_Inl [simp]: "and_then (Inl e, calls) f = (Inl e, calls)"
  by (simp add: and_then_def)

lemma and_then_Inr [simp]: "and_then (Inr x, calls) f = (fst (f x), calls @ snd (f x))"
  by (simp add: and_then_def split: prod.splits)

lemma perform_web_search_calls:
  "snd (perform_web_search P query api_key) = [RequestsGet query api_key]"
  by (cases "requests_get P query api_key") (simp_all add: perform_web_search_def Let_def)

lemma generate_response_calls:
  "c \<in> set (snd (generate_response P query context cfg)) \<Longrightarrow> is_web_search_call c \<or> is_llm_call c"
proof (cases "useWebSearch cfg = Some True")
  case False
  assume "c \<in> set (snd (generate_response P query context cfg))"
  with False show ?thesis
    by (simp add: generate_response_def Let_def is_llm_call_def)
next
  case True
  assume c: "c \<in> set (snd (generate_response P query context cfg))"
  show ?thesis
  proof (cases "requests_get P query (webSearchApiKey cfg)")
    case (Inl e)
    with True c show ?thesis
      by (simp add: generate_response_def perform_web_search_def is_web_search_call_def)
  next
    case (Inr results)
    with True c show ?thesis
      by (auto simp: generate_response_def perform_web_search_def Let_def
                     is_web_search_call_def is_llm_call_def)
  qed
qed

lemma find_node_by_type_None:
  "find_node_by_type ns t = None \<longleftrightarrow> (\<forall>n\<in>set ns. node_type n \<noteq> t)"
  by (auto simp: find_node_by_type_def find_None_iff)

lemma find_node_by_type_Some:
  "find_node_by_type ns t = Some n \<Longrightarrow> n \<in> set ns \<and> node_type n = t"
  by (auto simp: find_node_by_type_def find_Some_iff)

text \<open>
  Claim C8, the claim as it is stated fails: when the search request fails,
  \<^verbatim>\<open>perform_web_search\<close> does not return the empty string, and the enclosing
  \<^verbatim>\<open>generate_response\<close> ends with the same error before any language-model call.
\<close>

theorem failed_search_aborts_generation:
  "requests_get search_down ''q'' (Some ''s'') = Inl (ProviderError ''search failed'')
   \<and> fst (perform_web_search search_down ''q'' (Some ''s'')) \<noteq> Inr []
   \<and> (\<nexists>response. fst (generate_response search_down ''q'' [] searching_llm_config)
                      = Inr response)
   \<and> \<not> list_ex is_llm_call
         (snd (generate_response search_down ''q'' [] searching_llm_config))"
  by (simp add: generate_response_def perform_web_search_def search_down_def answering_def
                searching_llm_config_def empty_config_def is_llm_call_def)

text \<open>
  Claim C8, amended. A search that answers gives the snippets of the first three organic
  results (the empty string for a result without one), joined with newlines, so at most
  three; a search with no organic results gives the empty string. A search that fails
  raises: the error leaves \<^verbatim>\<open>perform_web_search\<close> and \<^verbatim>\<open>generate_response\<close>, and the
  language model is not called.
\<close>

theorem perform_web_search_top3:
  "(\<forall>results. requests_get P query api_key = Inr results \<longrightarrow>
      (\<exists>snippets.
          perform_web_search P query api_key
            = (Inr (py_join newline snippets), [RequestsGet query api_key])
          \<and> length snippets \<le> 3
          \<and> snippets = map (\<lambda>r. case snippet r of None \<Rightarrow> [] | Some s \<Rightarrow> s)
                         (take 3 (case organic_results results of None \<Rightarrow> [] | Some rs \<Rightarrow> rs)))
      \<and> (organic_results results = None \<or> organic_results results = Some []
           \<longrightarrow> fst (perform_web_search P query api_key) = Inr []))
   \<and> (\<forall>e. requests_get P query api_key = Inl e \<longrightarrow>
          perform_web_search P query api_key = (Inl e, [RequestsGet query api_key]))
   \<and> (\<forall>e. useWebSearch cfg = Some True \<and> requests_get P query (webSearchApiKey cfg) = Inl e \<longrightarrow>
          generate_response P query context cfg = (Inl e, [RequestsGet query (webSearchApiKey cfg)]))"
proof (intro conjI allI impI)
  fix results
  assume r: "requests_get P query api_key = Inr results"
  let ?snippets = "map (\<lambda>r. case snippet r of None \<Rightarrow> [] | Some s \<Rightarrow> s)
                     (take 3 (case organic_results results of None \<Rightarrow> [] | Some rs \<Rightarrow> rs))"
  have "perform_web_search P query api_key
          = (Inr (py_join newline ?snippets), [RequestsGet query api_key])"
    using r by (simp add: perform_web_search_def Let_def)
  moreover have "length ?snippets \<le> 3" by simp
  ultimately show "\<exists>snippets.
          perform_web_search P query api_key
            = (Inr (py_join newline snippets), [RequestsGet query api_key])
          \<and> length snippets \<le> 3
          \<and> snippets = map (\<lambda>r. case snippet r of None \<Rightarrow> [] | Some s \<Rightarrow> s)
                         (take 3 (case organic_results results of None \<Rightarrow> [] | Some rs \<Rightarrow> rs))"
    by blast
  assume "organic_results results = None \<or> organic_results results = Some []"
  then show "fst (perform_web_search P query api_key) = Inr []"
    using r by (auto simp: perform_web_search_def Let_def)
next
  fix e
  assume "requests_get P query api_key = Inl e"
  then show "perform_web_search P query api_key = (Inl e, [RequestsGet query api_key])"
    by (simp add: perform_web_search_def)
next
  fix e
  assume "useWebSearch cfg = Some True \<and> requests_get P query (webSearchApiKey cfg) = Inl e"
  then show "generate_response P query context cfg
               = (Inl e, [RequestsGet query (webSearchApiKey cfg)])"
    by (simp add: generate_response_def perform_web_search_def)
qed

theorem perform_web_search_top3_witness:
  "requests_get answering ''q'' None
     = Inr \<lparr>organic_results = Some [\<lparr>snippet = Some ''s1''\<rparr>, \<lparr>snippet = None\<rparr>,
                                     \<lparr>snippet = Some ''s3''\<rparr>, \<lparr>snippet = Some ''s4''\<rparr>]\<rparr>
   \<and> perform_web_search answering ''q'' None
       = (Inr (py_join newline [''s1'', [], ''s3'']), [RequestsGet ''q'' None])
   \<and> requests_get search_down ''q'' None = Inl (ProviderError ''search failed'')
   \<and> perform_web_search search_down ''q'' None
       = (Inl (ProviderError ''search failed''), [RequestsGet ''q'' None])"
proof -
  have a: "requests_get answering ''q'' None
     = Inr \<lparr>organic_results = Some [\<lparr>snippet = Some ''s1''\<rparr>, \<lparr>snippet = None\<rparr>,
                                     \<lparr>snippet = Some ''s3''\<rparr>, \<lparr>snippet = Some ''s4''\<rparr>]\<rparr>"
    by (simp add: answering_def)
  have b: "requests_get search_down ''q'' None = Inl (ProviderError ''search failed'')"
    by (simp add: search_down_def answering_def)
  from a perform_web_search_top3 [of answering "''q''" None]
  have "\<exists>snippets. perform_web_search answering ''q'' None
                      = (Inr (py_join newline snippets), [RequestsGet ''q'' None])
          \<and> length snippets \<le> 3
          \<and> snippets = map (\<lambda>r. case snippet r of None \<Rightarrow> [] | Some s \<Rightarrow> s)
               (take 3 [\<lparr>snippet = Some ''s1''\<rparr>, \<lparr>snippet = None\<rparr>,
                        \<lparr>snippet = Some ''s3''\<rparr>, \<lparr>snippet = Some ''s4''\<rparr>])"
    by fastforce
  then have c: "perform_web_search answering ''q'' None
       = (Inr (py_join newline [''s1'', [], ''s3'']), [RequestsGet ''q'' None])"
    by (auto simp: numeral_3_eq_3)
  from b perform_web_search_top3 [of search_down "''q''" None]
  have d: "perform_web_search search_down ''q'' None
       = (Inl (ProviderError ''search failed''), [RequestsGet ''q'' None])"
    by blast
  from a b c d show ?thesis by (simp only: simp_thms)
qed

lemma retrieve_context_unfold:
  "retrieve_context P stack_id query =
     (case embeddings_create P ''text-embedding-3-large'' [query] of
        Inl e \<Rightarrow> (Inl e, [EmbeddingsCreate ''text-embedding-3-large'' [query]])
      | Inr [] \<Rightarrow> (Inl IndexError, [EmbeddingsCreate ''text-embedding-3-large'' [query]])
      | Inr (v # vs) \<Rightarrow>
          (case collection_query P (''stack_'' @ stack_id) v 3 of
             Inl e \<Rightarrow> (Inl e, [EmbeddingsCreate ''text-embedding-3-large'' [query],
                                CollectionQuery (''stack_'' @ stack_id) v 3])
           | Inr r \<Rightarrow>
               (Inr (documents_context r),
                [EmbeddingsCreate ''text-embedding-3-large'' [query],
                 CollectionQuery (''stack_'' @ stack_id) v 3])))"
proof (cases "embeddings_create P ''text-embedding-3-large'' [query]")
  case (Inl e)
  then show ?thesis by (simp add: retrieve_context_def generate_embeddings_def)
next
  case (Inr embeddings)
  show ?thesis
  proof (cases embeddings)
    case Nil
    with Inr show ?thesis by (simp add: retrieve_context_def generate_embeddings_def)
  next
    case (Cons v vs)
    show ?thesis
    proof (cases "collection_query P (''stack_'' @ stack_id) v 3")
      case (Inl e)
      with Inr Cons show ?thesis
        by (simp add: retrieve_context_def generate_embeddings_def vector_store_query_def)
    next
      case r: (Inr r)
      with Inr Cons show ?thesis
        by (simp add: retrieve_context_def generate_embeddings_def vector_store_query_def)
    qed
  qed
qed

lemma retrieve_context_calls:
  "c \<in> set (snd (retrieve_context P stack_id query)) \<Longrightarrow>
   is_embedding_call c \<or> is_vector_store_call c"
  unfolding retrieve_context_unfold
  by (auto simp: is_embedding_call_def is_vector_store_call_def split: sum.splits list.splits)

lemma call_kinds_disjoint:
  "is_web_search_call c \<or> is_llm_call c \<Longrightarrow> \<not> is_embedding_call c \<and> \<not> is_vector_store_call c"
  by (cases c) (simp_all add: is_web_search_call_def is_llm_call_def is_embedding_call_def
                              is_vector_store_call_def)

lemma execute_without_kb:
  "find_node_by_type (nodes workflow_data) KnowledgeBase = None \<Longrightarrow>
   execute P workflow_data query stack_id =
     (case find_node_by_type (nodes workflow_data) LLMEngine of
        None \<Rightarrow> (Inl (ValueError ''LLM node not found''), [])
      | Some n \<Rightarrow>
          (case node_config n of
             None \<Rightarrow> (Inl (KeyError ''config''), [])
           | Some cfg \<Rightarrow>
               (case generate_response P query [] cfg of
                  (Inl e, calls) \<Rightarrow> (Inl e, calls)
                | (Inr response, calls) \<Rightarrow> (Inr (result_dict response False), calls))))"
  by (auto simp: execute_def Let_def split: option.splits prod.splits sum.splits)

lemma execute_without_llm:
  "find_node_by_type (nodes workflow_data) LLMEngine = None \<Longrightarrow>
   execute P workflow_data query stack_id =
     (if find_node_by_type (nodes workflow_data) KnowledgeBase \<noteq> None
      then (case retrieve_context P stack_id query of
              (Inl e, calls) \<Rightarrow> (Inl e, calls)
            | (Inr c, calls) \<Rightarrow> (Inl (ValueError ''LLM node not found''), calls))
      else (Inl (ValueError ''LLM node not found''), []))"
  by (auto simp: execute_def Let_def split: option.splits prod.splits sum.splits)

text \<open>
  Claim C6. When the graph has no \<^verbatim>\<open>KnowledgeBase\<close> node, \<^verbatim>\<open>execute\<close> calls neither the
  embedding provider nor the vector store, whatever its outcome; it generates with the
  empty context, and the dictionary it returns has \<^verbatim>\<open>metadata.context_used = False\<close>. It
  returns exactly when there is an \<^verbatim>\<open>LLMEngine\<close> node, that node has a configuration and
  the generation succeeds. The frontend's \<^verbatim>\<open>executeWorkflow\<close> has the empty context as
  well.
\<close>

theorem execute_without_knowledge_base:
  assumes "\<forall>n\<in>set (nodes workflow_data). node_type n \<noteq> KnowledgeBase"
  shows "(\<forall>c\<in>set (snd (execute P workflow_data query stack_id)).
            \<not> is_embedding_call c \<and> \<not> is_vector_store_call c)
       \<and> (\<forall>r. fst (execute P workflow_data query stack_id) = Inr r \<longrightarrow>
              map_of r ''metadata'' = Some (JObj [(''context_used'', JBool False)]))
       \<and> (\<forall>n cfg. find_node_by_type (nodes workflow_data) LLMEngine = Some n
                  \<and> node_config n = Some cfg \<longrightarrow>
              execute P workflow_data query stack_id =
                (case generate_response P query [] cfg of
                   (Inl e, calls) \<Rightarrow> (Inl e, calls)
                 | (Inr response, calls) \<Rightarrow> (Inr (result_dict response False), calls)))
       \<and> (\<forall>n. find_node_by_type (nodes workflow_data) LLMEngine = Some n
                \<and> node_config n = None \<longrightarrow>
              execute P workflow_data query stack_id = (Inl (KeyError ''config''), []))
       \<and> (find_node_by_type (nodes workflow_data) LLMEngine = None \<longrightarrow>
              execute P workflow_data query stack_id = (Inl (ValueError ''LLM node not found''), []))
       \<and> (\<forall>number_to_string res.
              executeWorkflow_locals number_to_string workflow_data query = Inr res \<longrightarrow> fst res = [])"
proof -
  from assms have kb: "find_node_by_type (nodes workflow_data) KnowledgeBase = None"
    by (simp add: find_node_by_type_None)
  note ex = execute_without_kb [OF kb, of P query stack_id]
  have calls: "\<forall>c\<in>set (snd (execute P workflow_data query stack_id)).
                 \<not> is_embedding_call c \<and> \<not> is_vector_store_call c"
  proof
    fix c assume c: "c \<in> set (snd (execute P workflow_data query stack_id))"
    show "\<not> is_embedding_call c \<and> \<not> is_vector_store_call c"
    proof (cases "find_node_by_type (nodes workflow_data) LLMEngine")
      case None
      with c ex show ?thesis by simp
    next
      case (Some n)
      show ?thesis
      proof (cases "node_config n")
        case None
        with Some c ex show ?thesis by simp
      next
        case cfg: (Some cfg)
        with Some c ex have "c \<in> set (snd (generate_response P query [] cfg))"
          by (auto split: prod.splits sum.splits)
        then show ?thesis using generate_response_calls call_kinds_disjoint by blast
      qed
    qed
  qed
  have meta: "\<forall>r. fst (execute P workflow_data query stack_id) = Inr r \<longrightarrow>
                map_of r ''metadata'' = Some (JObj [(''context_used'', JBool False)])"
    using ex by (auto simp: result_dict_def split: option.splits prod.splits sum.splits)
  have llm: "\<forall>n cfg. find_node_by_type (nodes workflow_data) LLMEngine = Some n
                  \<and> node_config n = Some cfg \<longrightarrow>
              execute P workflow_data query stack_id =
                (case generate_response P query [] cfg of
                   (Inl e, calls) \<Rightarrow> (Inl e, calls)
                 | (Inr response, calls) \<Rightarrow> (Inr (result_dict response False), calls))"
    using ex by simp
  have nocfg: "\<forall>n. find_node_by_type (nodes workflow_data) LLMEngine = Some n
                \<and> node_config n = None \<longrightarrow>
              execute P workflow_data query stack_id = (Inl (KeyError ''config''), [])"
    using ex by simp
  have nollm: "find_node_by_type (nodes workflow_data) LLMEngine = None \<longrightarrow>
              execute P workflow_data query stack_id = (Inl (ValueError ''LLM node not found''), [])"
    using ex by simp
  have front: "\<forall>number_to_string res.
              executeWorkflow_locals number_to_string workflow_data query = Inr res \<longrightarrow> fst res = []"
    using kb by (auto simp: executeWorkflow_locals_def kb_context_def find_node_by_type_def Let_def
                      split: option.splits)
  from calls meta llm nocfg nollm front show ?thesis by (intro conjI)
qed

theorem execute_without_knowledge_base_witness:
  "execute answering llm_only_workflow ''2+2?'' ''7''
     = (Inr [(''response'', JStr ''4''), (''metadata'', JObj [(''context_used'', JBool False)])],
        [ChatCompletionsCreate ''m1''
           [(''system'', ''Use  for 2+2?''), (''user'', ''2+2?'')] (7 / 10)])
   \<and> map_of (result_dict ''4'' False) ''metadata'' = Some (JObj [(''context_used'', JBool False)])"
proof -
  have nokb: "\<forall>n\<in>set (nodes llm_only_workflow). node_type n \<noteq> KnowledgeBase"
    by (simp add: llm_only_workflow_def llm_node_def)
  have llm: "find_node_by_type (nodes llm_only_workflow) LLMEngine = Some llm_node
             \<and> node_config llm_node = Some llm_config"
    by (simp add: find_node_by_type_def llm_only_workflow_def llm_node_def)
  have gen: "generate_response answering ''2+2?'' [] llm_config
     = (Inr ''4'', [ChatCompletionsCreate ''m1''
           [(''system'', ''Use  for 2+2?''), (''user'', ''2+2?'')] (7 / 10)])"
    by (simp add: generate_response_def substituted_prompt_def llm_config_def empty_config_def
                  answering_def)
  from execute_without_knowledge_base [OF nokb, of answering "''2+2?''" "''7''"] llm
  have "execute answering llm_only_workflow ''2+2?'' ''7'' =
          (case generate_response answering ''2+2?'' [] llm_config of
             (Inl e, calls) \<Rightarrow> (Inl e, calls)
           | (Inr response, calls) \<Rightarrow> (Inr (result_dict response False), calls))"
    by blast
  with gen show ?thesis by (simp add: result_dict_def)
qed

lemma execute_with_kb:
  "find_node_by_type (nodes workflow_data) KnowledgeBase \<noteq> None \<Longrightarrow>
   execute P workflow_data query stack_id =
     (case retrieve_context P stack_id query of
        (Inl e, calls) \<Rightarrow> (Inl e, calls)
      | (Inr context, calls) \<Rightarrow>
          (case find_node_by_type (nodes workflow_data) LLMEngine of
             None \<Rightarrow> (Inl (ValueError ''LLM node not found''), calls)
           | Some n \<Rightarrow>
               (case node_config n of
                  None \<Rightarrow> (Inl (KeyError ''config''), calls)
                | Some cfg \<Rightarrow>
                    (case generate_response P query context cfg of
                       (Inl e, calls') \<Rightarrow> (Inl e, calls @ calls')
                     | (Inr response, calls') \<Rightarrow>
                         (Inr (result_dict response (context \<noteq> [])), calls @ calls')))))"
  by (auto simp: execute_def Let_def split: option.splits prod.splits sum.splits)






section \<open>Validation and execution\<close>

text \<open>
  Claim C1, the claim as it is stated fails: a graph with an engine node but no
  \<^verbatim>\<open>UserQuery\<close> and no \<^verbatim>\<open>Output\<close> node does not validate, and the reference engine's
  \<^verbatim>\<open>execute\<close>, which does not validate, calls the language model on it.
\<close>

theorem execute_skips_validation:
  "\<not> list_ex (\<lambda>n. node_type n = UserQuery) (nodes llm_only_workflow)
   \<and> \<not> list_ex (\<lambda>n. node_type n = Output) (nodes llm_only_workflow)
   \<and> \<not> validateWorkflow (nodes llm_only_workflow) (edges llm_only_workflow)
   \<and> snd (execute answering llm_only_workflow ''2+2?'' ''7'')
       = [ChatCompletionsCreate ''m1''
            [(''system'', ''Use  for 2+2?''), (''user'', ''2+2?'')] (7 / 10)]
   \<and> list_ex is_llm_call (snd (execute answering llm_only_workflow ''2+2?'' ''7''))"
  by (simp add: validateWorkflow_def execute_def llm_only_workflow_def find_node_by_type_def
                llm_node_def llm_config_def generate_response_def substituted_prompt_def empty_config_def
                answering_def is_llm_call_def)

text \<open>
  Claim C1, amended. A graph that lacks a \<^verbatim>\<open>UserQuery\<close>, an \<^verbatim>\<open>LLMEngine\<close> or an
  \<^verbatim>\<open>Output\<close> node is invalid: the editor's \<^verbatim>\<open>validateWorkflow\<close> is false, the documented
  rules answer \<^verbatim>\<open>valid = false\<close> with the error \<^verbatim>\<open>Missing required components\<close>, and
  \<^verbatim>\<open>buildStack\<close> alerts and does not open the chat. The reference engine's \<^verbatim>\<open>execute\<close>
  does not validate: when the \<^verbatim>\<open>LLMEngine\<close> node is missing it fails and calls neither
  the language model nor the web search (and nothing at all when there is no
  \<^verbatim>\<open>KnowledgeBase\<close> node either), and the frontend's \<^verbatim>\<open>executeWorkflow\<close> throws.
\<close>

theorem missing_required_node_is_invalid:
  assumes "\<not> (\<exists>n\<in>set ns. node_type n = UserQuery)
         \<or> \<not> (\<exists>n\<in>set ns. node_type n = LLMEngine)
         \<or> \<not> (\<exists>n\<in>set ns. node_type n = Output)"
  shows "\<not> validateWorkflow ns es
       \<and> validateWorkflow_rules check ns es
           = \<lparr>valid = False, error = Some ''Missing required components''\<rparr>
       \<and> buildStack \<lparr>editor_nodes = ns, editor_edges = es, showChat = b\<rparr>
           = (\<lparr>editor_nodes = ns, editor_edges = es, showChat = b\<rparr>,
              [Alert ''Invalid workflow! Ensure you have: User Query -> LLM Engine -> Output''])
       \<and> (\<not> (\<exists>n\<in>set ns. node_type n = LLMEngine) \<longrightarrow>
             (\<exists>e. fst (execute P \<lparr>nodes = ns, edges = es\<rparr> query stack_id) = Inl e)
           \<and> (\<forall>c\<in>set (snd (execute P \<lparr>nodes = ns, edges = es\<rparr> query stack_id)).
                 \<not> is_llm_call c \<and> \<not> is_web_search_call c)
           \<and> ((\<forall>n\<in>set ns. node_type n \<noteq> KnowledgeBase) \<longrightarrow>
                 execute P \<lparr>nodes = ns, edges = es\<rparr> query stack_id
                   = (Inl (ValueError ''LLM node not found''), []))
           \<and> executeWorkflow number_to_string \<lparr>nodes = ns, edges = es\<rparr> query
               = Inl (Error ''LLM Engine component is required''))"
proof -
  from assms have invalid: "\<not> validateWorkflow ns es"
    by (auto simp: validateWorkflow_def Let_def list_ex_iff)
  from assms have rules: "validateWorkflow_rules check ns es
           = \<lparr>valid = False, error = Some ''Missing required components''\<rparr>"
    by (auto simp: validateWorkflow_rules_def Let_def list_ex_iff)
  from invalid have build: "buildStack \<lparr>editor_nodes = ns, editor_edges = es, showChat = b\<rparr>
           = (\<lparr>editor_nodes = ns, editor_edges = es, showChat = b\<rparr>,
              [Alert ''Invalid workflow! Ensure you have: User Query -> LLM Engine -> Output''])"
    by (simp add: buildStack_def)
  have engine: "\<not> (\<exists>n\<in>set ns. node_type n = LLMEngine) \<longrightarrow>
             (\<exists>e. fst (execute P \<lparr>nodes = ns, edges = es\<rparr> query stack_id) = Inl e)
           \<and> (\<forall>c\<in>set (snd (execute P \<lparr>nodes = ns, edges = es\<rparr> query stack_id)).
                 \<not> is_llm_call c \<and> \<not> is_web_search_call c)
           \<and> ((\<forall>n\<in>set ns. node_type n \<noteq> KnowledgeBase) \<longrightarrow>
                 execute P \<lparr>nodes = ns, edges = es\<rparr> query stack_id
                   = (Inl (ValueError ''LLM node not found''), []))
           \<and> executeWorkflow number_to_string \<lparr>nodes = ns, edges = es\<rparr> query
               = Inl (Error ''LLM Engine component is required'')"
  proof
    assume "\<not> (\<exists>n\<in>set ns. node_type n = LLMEngine)"
    then have llm: "find_node_by_type (nodes \<lparr>nodes = ns, edges = es\<rparr>) LLMEngine = None"
      by (simp add: find_node_by_type_None)
    note ex = execute_without_llm [OF llm, of P query stack_id]
    have fails: "\<exists>e. fst (execute P \<lparr>nodes = ns, edges = es\<rparr> query stack_id) = Inl e"
      unfolding ex by (auto split: prod.splits sum.splits)
    have calls: "\<forall>c\<in>set (snd (execute P \<lparr>nodes = ns, edges = es\<rparr> query stack_id)).
                   \<not> is_llm_call c \<and> \<not> is_web_search_call c"
    proof
      fix c assume "c \<in> set (snd (execute P \<lparr>nodes = ns, edges = es\<rparr> query stack_id))"
      then have "c \<in> set (snd (retrieve_context P stack_id query))"
        unfolding ex by (auto split: if_splits prod.splits sum.splits)
      then have "is_embedding_call c \<or> is_vector_store_call c"
        by (rule retrieve_context_calls)
      then show "\<not> is_llm_call c \<and> \<not> is_web_search_call c"
        using call_kinds_disjoint by blast
    qed
    have nokb: "(\<forall>n\<in>set ns. node_type n \<noteq> KnowledgeBase) \<longrightarrow>
                 execute P \<lparr>nodes = ns, edges = es\<rparr> query stack_id
                   = (Inl (ValueError ''LLM node not found''), [])"
      unfolding ex by (simp add: find_node_by_type_None)
    from llm have front: "executeWorkflow number_to_string \<lparr>nodes = ns, edges = es\<rparr> query
               = Inl (Error ''LLM Engine component is required'')"
      by (simp add: executeWorkflow_def executeWorkflow_locals_def find_node_by_type_def Let_def)
    from fails calls nokb front
    show "(\<exists>e. fst (execute P \<lparr>nodes = ns, edges = es\<rparr> query stack_id) = Inl e)
           \<and> (\<forall>c\<in>set (snd (execute P \<lparr>nodes = ns, edges = es\<rparr> query stack_id)).
                 \<not> is_llm_call c \<and> \<not> is_web_search_call c)
           \<and> ((\<forall>n\<in>set ns. node_type n \<noteq> KnowledgeBase) \<longrightarrow>
                 execute P \<lparr>nodes = ns, edges = es\<rparr> query stack_id
                   = (Inl (ValueError ''LLM node not found''), []))
           \<and> executeWorkflow number_to_string \<lparr>nodes = ns, edges = es\<rparr> query
               = Inl (Error ''LLM Engine component is required'')"
      by (intro conjI)
  qed
  from invalid rules build engine show ?thesis by (intro conjI)
qed

theorem missing_required_node_is_invalid_witness:
  "\<not> validateWorkflow [user_query_node, output_node] [an_edge]
   \<and> validateWorkflow_rules validateNodeConfig [user_query_node, output_node] [an_edge]
       = \<lparr>valid = False, error = Some ''Missing required components''\<rparr>
   \<and> execute answering \<lparr>nodes = [user_query_node, output_node], edges = [an_edge]\<rparr> ''2+2?'' ''7''
       = (Inl (ValueError ''LLM node not found''), [])
   \<and> executeWorkflow (\<lambda>x. []) \<lparr>nodes = [user_query_node, output_node], edges = [an_edge]\<rparr> ''2+2?''
       = Inl (Error ''LLM Engine component is required'')"
proof -
  have missing: "\<not> (\<exists>n\<in>set [user_query_node, output_node]. node_type n = UserQuery)
         \<or> \<not> (\<exists>n\<in>set [user_query_node, output_node]. node_type n = LLMEngine)
         \<or> \<not> (\<exists>n\<in>set [user_query_node, output_node]. node_type n = Output)"
    by (simp add: user_query_node_def output_node_def)
  have nollm: "\<not> (\<exists>n\<in>set [user_query_node, output_node]. node_type n = LLMEngine)"
    by (simp add: user_query_node_def output_node_def)
  have nokb: "\<forall>n\<in>set [user_query_node, output_node]. node_type n \<noteq> KnowledgeBase"
    by (simp add: user_query_node_def output_node_def)
  from missing_required_node_is_invalid
         [OF missing, of "[an_edge]" validateNodeConfig False answering "''2+2?''" "''7''" "\<lambda>x. []"]
       nollm nokb
  show ?thesis by blast
qed

section \<open>The frontend executor\<close>

lemma kb_context_cases:
  "kb_context kb = Inl e \<Longrightarrow> e = TypeError ''uploadedFiles''"
  by (auto simp: kb_context_def split: option.splits if_splits)

lemma kb_context_configured:
  "\<forall>n\<in>set ns. node_config n \<noteq> None \<Longrightarrow> \<exists>context. kb_context (find f ns) = Inr context"
proof (cases "find f ns")
  case None
  then show ?thesis by (simp add: kb_context_def)
next
  case (Some kb)
  assume "\<forall>n\<in>set ns. node_config n \<noteq> None"
  moreover from Some have "kb \<in> set ns" by (auto simp: find_Some_iff)
  ultimately obtain cfg where "node_config kb = Some cfg" by auto
  with Some show ?thesis by (simp add: kb_context_def split: option.splits)
qed

text \<open>
  What \<^verbatim>\<open>executeWorkflow\<close> does on every graph: it throws
  \<^verbatim>\<open>LLM Engine component is required\<close> exactly when the graph has no \<^verbatim>\<open>llmEngine\<close> node;
  when there is one and every node has a configuration, it returns a non-empty string,
  whatever other nodes the graph has or lacks; and its only other failures are the two
  reads of a missing configuration.
\<close>

lemma executeWorkflow_outcomes:
  "(executeWorkflow number_to_string workflow query = Inl (Error ''LLM Engine component is required'')
      \<longleftrightarrow> \<not> (\<exists>n\<in>set (nodes workflow). node_type n = LLMEngine))
   \<and> ((\<exists>n\<in>set (nodes workflow). node_type n = LLMEngine)
          \<and> (\<forall>n\<in>set (nodes workflow). node_config n \<noteq> None) \<longrightarrow>
          (\<exists>response. executeWorkflow number_to_string workflow query = Inr response
                      \<and> response \<noteq> []))
   \<and> (\<forall>e. executeWorkflow number_to_string workflow query = Inl e \<longrightarrow>
          e = Error ''LLM Engine component is required''
          \<or> e = TypeError ''uploadedFiles'' \<or> e = TypeError ''prompt'')"
proof (cases "find (\<lambda>n. node_type n = LLMEngine) (nodes workflow)")
  case None
  then have "\<not> (\<exists>n\<in>set (nodes workflow). node_type n = LLMEngine)"
    by (auto simp: find_None_iff)
  moreover from None have "executeWorkflow number_to_string workflow query
                             = Inl (Error ''LLM Engine component is required'')"
    by (simp add: executeWorkflow_def executeWorkflow_locals_def Let_def)
  ultimately show ?thesis by simp
next
  case (Some llm)
  then have present: "\<exists>n\<in>set (nodes workflow). node_type n = LLMEngine"
    and llm: "llm \<in> set (nodes workflow)"
    by (auto simp: find_Some_iff)
  let ?kb = "find (\<lambda>n. node_type n = KnowledgeBase) (nodes workflow)"
  have errors: "\<forall>e. executeWorkflow number_to_string workflow query = Inl e \<longrightarrow>
          e = Error ''LLM Engine component is required''
          \<or> e = TypeError ''uploadedFiles'' \<or> e = TypeError ''prompt''"
    using Some kb_context_cases [of ?kb]
    by (auto simp: executeWorkflow_def executeWorkflow_locals_def Let_def
             split: sum.splits option.splits)
  have other: "executeWorkflow number_to_string workflow query
                 \<noteq> Inl (Error ''LLM Engine component is required'')"
    using Some kb_context_cases [of ?kb]
    by (auto simp: executeWorkflow_def executeWorkflow_locals_def Let_def
             split: sum.splits option.splits)
  have returns: "(\<forall>n\<in>set (nodes workflow). node_config n \<noteq> None) \<longrightarrow>
          (\<exists>response. executeWorkflow number_to_string workflow query = Inr response
                      \<and> response \<noteq> [])"
  proof
    assume cfgs: "\<forall>n\<in>set (nodes workflow). node_config n \<noteq> None"
    then obtain ctx where "kb_context ?kb = Inr ctx"
      using kb_context_configured by blast
    moreover from cfgs llm obtain cfg where "node_config llm = Some cfg" by auto
    ultimately show "\<exists>response. executeWorkflow number_to_string workflow query = Inr response
                      \<and> response \<noteq> []"
      using Some by (simp add: executeWorkflow_def executeWorkflow_locals_def Let_def)
  qed
  from present errors other returns show ?thesis by simp
qed

text \<open>
  Claim C10. On the graph \<^verbatim>\<open>UserQuery, LLMEngine, Output\<close> with one edge, whose engine
  node was stored without \<^verbatim>\<open>data.config\<close>, validation passes and \<^verbatim>\<open>executeWorkflow\<close>
  throws, although the graph contains an \<^verbatim>\<open>llmEngine\<close> node: reading \<^verbatim>\<open>llmConfig.prompt\<close>
  fails. The configuration panel reads the same field as \<^verbatim>\<open>node.data.config || {}\<close>.
\<close>

theorem executeWorkflow_throws_without_config:
  "list_ex (\<lambda>n. node_type n = LLMEngine) (nodes bare_llm_workflow)
   \<and> validateWorkflow (nodes bare_llm_workflow) (edges bare_llm_workflow)
   \<and> executeWorkflow (\<lambda>x. []) bare_llm_workflow ''hi'' = Inl (TypeError ''prompt'')"
  by (simp add: validateWorkflow_def executeWorkflow_def executeWorkflow_locals_def
                kb_context_def bare_llm_workflow_def user_query_node_def bare_llm_node_def
                output_node_def)

section \<open>Validation and the configuration\<close>

lemma validateWorkflow_ignores_config:
  "validateWorkflow (map (\<lambda>n. n\<lparr>node_config := f n\<rparr>) ns) es = validateWorkflow ns es"
  by (simp add: validateWorkflow_def list_ex_iff)

lemma documented_rules_check_config:
  "\<exists>n\<in>set ns. \<not> check n \<Longrightarrow> \<not> valid (validateWorkflow_rules check ns es)"
  by (auto simp: validateWorkflow_rules_def Let_def find_None_iff split: option.splits)

lemma documented_rules_reject_empty_apiKey:
  "validateWorkflow_rules validateNodeConfig (nodes unconfigured_workflow) (edges unconfigured_workflow)
     = \<lparr>valid = False, error = Some ''Invalid config for llmEngine-2''\<rparr>"
  by (simp add: validateWorkflow_rules_def validateNodeConfig_def non_empty_def
                unconfigured_workflow_def user_query_node_def unconfigured_llm_node_def unconfigured_llm_config_def
                output_node_def empty_config_def)

text \<open>
  Claim C2. The editor's \<^verbatim>\<open>validateWorkflow\<close> looks at the node types and the number of
  edges only. On the graph \<^verbatim>\<open>UserQuery, LLMEngine, Output\<close> with one edge, whose engine
  node has the empty \<^verbatim>\<open>apiKey\<close> it was created with, it answers that the graph is valid.
\<close>

theorem validateWorkflow_accepts_empty_apiKey:
  "node_type unconfigured_llm_node = LLMEngine
   \<and> unconfigured_llm_node \<in> set (nodes unconfigured_workflow)
   \<and> node_config unconfigured_llm_node = Some unconfigured_llm_config
   \<and> apiKey unconfigured_llm_config = Some []
   \<and> validateWorkflow (nodes unconfigured_workflow) (edges unconfigured_workflow)"
  by (simp add: validateWorkflow_def unconfigured_workflow_def user_query_node_def
                unconfigured_llm_node_def unconfigured_llm_config_def output_node_def empty_config_def)

section \<open>Execution traces\<close>

lemma sendMessage_try_calls:
  "c \<in> set (snd (snd (sendMessage_try db_insert number_to_string stackId sessionId workflow txt0 st)))
   \<Longrightarrow> \<exists>m. c = Insert ''chat_messages'' m"
  by (auto simp: sendMessage_try_def Let_def split: prod.splits option.splits sum.splits)

lemma sendMessage_try_length:
  "length (snd (snd (sendMessage_try db_insert number_to_string stackId sessionId workflow txt0 st))) \<le> 2"
  by (auto simp: sendMessage_try_def Let_def split: prod.splits option.splits sum.splits)

lemma sendMessage_calls:
  "c \<in> set (snd (sendMessage db_insert number_to_string stackId sessionId workflow st))
   \<Longrightarrow> \<exists>m. c = Insert ''chat_messages'' m"
proof -
  assume c: "c \<in> set (snd (sendMessage db_insert number_to_string stackId sessionId workflow st))"
  let ?attempt = "sendMessage_try db_insert number_to_string stackId sessionId workflow
                (js_trim (input st)) (st\<lparr>loading := True, input := []\<rparr>)"
  obtain r st' calls where t: "?attempt = (r, st', calls)" by (cases ?attempt) auto
  from sendMessage_try_calls [of _ db_insert number_to_string stackId sessionId workflow
         "js_trim (input st)" "st\<lparr>loading := True, input := []\<rparr>"] t
  have calls: "\<forall>c\<in>set calls. \<exists>m. c = Insert ''chat_messages'' m" by simp
  from c t calls show ?thesis
    by (auto simp: sendMessage_def Let_def split: if_splits prod.splits sum.splits)
qed

lemma sendMessage_length:
  "length (snd (sendMessage db_insert number_to_string stackId sessionId workflow st)) \<le> 3"
proof -
  let ?attempt = "sendMessage_try db_insert number_to_string stackId sessionId workflow
                (js_trim (input st)) (st\<lparr>loading := True, input := []\<rparr>)"
  obtain r st' calls where t: "?attempt = (r, st', calls)" by (cases ?attempt) auto
  from sendMessage_try_length [of db_insert number_to_string stackId sessionId workflow
         "js_trim (input st)" "st\<lparr>loading := True, input := []\<rparr>"] t
  have "length calls \<le> 2" by simp
  with t show ?thesis
    by (auto simp: sendMessage_def Let_def split: if_splits prod.splits sum.splits)
qed

lemma execute_result_keys:
  "fst (execute P workflow_data query stack_id) = Inr r \<Longrightarrow> map fst r = [''response'', ''metadata'']"
proof (cases "find_node_by_type (nodes workflow_data) KnowledgeBase = None")
  case True
  assume "fst (execute P workflow_data query stack_id) = Inr r"
  then show ?thesis
    unfolding execute_without_kb [OF True]
    by (auto simp: result_dict_def split: option.splits prod.splits sum.splits)
next
  case False
  assume "fst (execute P workflow_data query stack_id) = Inr r"
  then show ?thesis
    unfolding execute_with_kb [OF False]
    by (auto simp: result_dict_def split: option.splits prod.splits sum.splits)
qed

text \<open>
  Claim C9, the claim as it is stated fails: a successful run of the reference engine
  returns a dictionary without execution logs, a failed run returns only its error, and a
  chat turn, successful or failed, inserts no row into \<^verbatim>\<open>execution_logs\<close>.
\<close>

theorem no_trace_is_produced:
  "fst (execute answering llm_only_workflow ''2+2?'' ''7'') = Inr (result_dict ''4'' False)
   \<and> map_of (result_dict ''4'' False) ''execution_logs'' = None
   \<and> fst (execute embedding_down kb_llm_workflow ''2+2?'' ''7'')
       = Inl (ProviderError ''embedding failed'')
   \<and> \<not> list_ex is_trace_insert
         (snd (sendMessage saving (\<lambda>x. []) ''7'' ''s1'' llm_only_workflow
                 \<lparr>messages = [], input = ''2+2?'', loading = False\<rparr>))
   \<and> \<not> list_ex is_trace_insert
         (snd (sendMessage saving (\<lambda>x. []) ''7'' ''s1'' kb_only_workflow
                 \<lparr>messages = [], input = ''2+2?'', loading = False\<rparr>))"
proof -
  have 1: "fst (execute answering llm_only_workflow ''2+2?'' ''7'') = Inr (result_dict ''4'' False)"
    by (simp add: execute_def llm_only_workflow_def find_node_by_type_def
                  llm_node_def llm_config_def generate_response_def substituted_prompt_def empty_config_def
                  answering_def)
  have 2: "map_of (result_dict ''4'' False) ''execution_logs'' = None"
    by (simp add: result_dict_def)
  have 3: "fst (execute embedding_down kb_llm_workflow ''2+2?'' ''7'')
            = Inl (ProviderError ''embedding failed'')"
    by (simp add: execute_def kb_llm_workflow_def find_node_by_type_def knowledge_base_node_def
                  llm_node_def llm_config_def retrieve_context_def generate_embeddings_def
                  embedding_down_def answering_def)
  have 4: "\<not> list_ex is_trace_insert (snd (sendMessage db_insert n s t w st))" for db_insert n s t w st
  proof
    assume "list_ex is_trace_insert (snd (sendMessage db_insert n s t w st))"
    then obtain c where c: "c \<in> set (snd (sendMessage db_insert n s t w st))"
      and tr: "is_trace_insert c"
      by (auto simp: list_ex_iff)
    from c obtain m where "c = Insert ''chat_messages'' m"
      using sendMessage_calls by blast
    with tr show False by (simp add: is_trace_insert_def)
  qed
  from 1 2 3 4 show ?thesis by (intro conjI)
qed

text \<open>
  Claim C9, amended. No execution trace is produced or persisted. When the reference
  engine's \<^verbatim>\<open>execute\<close> returns, its dictionary has the keys \<^verbatim>\<open>response\<close> and \<^verbatim>\<open>metadata\<close>
  and no other. A chat turn of the frontend writes to the table \<^verbatim>\<open>chat_messages\<close> only, at
  most three rows, and none when the input is blank or a turn is in progress.
\<close>

theorem only_chat_messages_are_persisted:
  "(\<forall>r. fst (execute P workflow_data query stack_id) = Inr r \<longrightarrow>
        map fst r = [''response'', ''metadata''])
   \<and> (\<forall>c\<in>set (snd (sendMessage db_insert number_to_string stackId sessionId workflow st)).
        \<exists>m. c = Insert ''chat_messages'' m)
   \<and> length (snd (sendMessage db_insert number_to_string stackId sessionId workflow st)) \<le> 3
   \<and> (js_trim (input st) = [] \<or> loading st \<longrightarrow>
        sendMessage db_insert number_to_string stackId sessionId workflow st = (st, []))"
  using execute_result_keys [of P workflow_data query stack_id]
        sendMessage_calls [of _ db_insert number_to_string stackId sessionId workflow st]
        sendMessage_length [of db_insert number_to_string stackId sessionId workflow st]
  by (auto simp: sendMessage_def)

theorem only_chat_messages_are_persisted_witness:
  "fst (execute answering llm_only_workflow ''2+2?'' ''7'') = Inr (result_dict ''4'' False)
   \<and> map fst (result_dict ''4'' False) = [''response'', ''metadata'']
   \<and> snd (sendMessage refusing (\<lambda>x. []) ''7'' ''s1'' llm_only_workflow
            \<lparr>messages = [], input = '' 2+2? '', loading = False\<rparr>)
       = [Insert ''chat_messages''
            \<lparr>msg_stack_id = ''7'', msg_session_id = ''s1'', role = ''user'',
             content = ''2+2?'', metadata_error = False\<rparr>,
          Insert ''chat_messages''
            \<lparr>msg_stack_id = ''7'', msg_session_id = ''s1'', role = ''assistant'',
             content = ''Sorry, there was an error processing your request. Please check your API keys and configuration.'',
             metadata_error = True\<rparr>]
   \<and> sendMessage saving (\<lambda>x. []) ''7'' ''s1'' llm_only_workflow
         \<lparr>messages = [], input = ''  '', loading = False\<rparr>
       = (\<lparr>messages = [], input = ''  '', loading = False\<rparr>, [])"
proof -
  have 1: "fst (execute answering llm_only_workflow ''2+2?'' ''7'') = Inr (result_dict ''4'' False)"
    by (simp add: execute_def llm_only_workflow_def find_node_by_type_def
                  llm_node_def llm_config_def generate_response_def substituted_prompt_def empty_config_def
                  answering_def)
  from 1 only_chat_messages_are_persisted [of answering llm_only_workflow "''2+2?''" "''7''"]
  have 2: "map fst (result_dict ''4'' False) = [''response'', ''metadata'']"
    by blast
  have 3: "snd (sendMessage refusing (\<lambda>x. []) ''7'' ''s1'' llm_only_workflow
            \<lparr>messages = [], input = '' 2+2? '', loading = False\<rparr>)
       = [Insert ''chat_messages''
            \<lparr>msg_stack_id = ''7'', msg_session_id = ''s1'', role = ''user'',
             content = ''2+2?'', metadata_error = False\<rparr>,
          Insert ''chat_messages''
            \<lparr>msg_stack_id = ''7'', msg_session_id = ''s1'', role = ''assistant'',
             content = ''Sorry, there was an error processing your request. Please check your API keys and configuration.'',
             metadata_error = True\<rparr>]"
    by (simp add: sendMessage_def sendMessage_try_def refusing_def js_trim_def js_is_space_def
                  add_message_def)
  have blank: "js_trim (input \<lparr>messages = [], input = ''  '', loading = False\<rparr>) = []"
    by (simp add: js_trim_def js_is_space_def)
  from blank only_chat_messages_are_persisted
               [of _ _ _ _ saving "\<lambda>x. []" "''7''" "''s1''" llm_only_workflow
                   "\<lparr>messages = [], input = ''  '', loading = False\<rparr>"]
  have 4: "sendMessage saving (\<lambda>x. []) ''7'' ''s1'' llm_only_workflow
         \<lparr>messages = [], input = ''  '', loading = False\<rparr>
       = (\<lparr>messages = [], input = ''  '', loading = False\<rparr>, [])"
    by blast
  from 1 2 3 4 show ?thesis by (intro conjI)
qed

section \<open>Prompt construction\<close>


lemma no_early_match:
  assumes "c \<notin> set t" "\<not> sublist (c # t) (x # p)"
  shows "\<not> prefix (c # t) (x # p @ c # t @ rest)"
proof
  assume "prefix (c # t) (x # p @ c # t @ rest)"
  then have x: "x = c" and pt: "prefix t (p @ (c # t @ rest))" by auto
  from assms(2) x have np: "\<not> prefix t p" by (auto simp: sublist_Cons_right)
  from pt have "prefix t p \<or> (\<exists>us. t = p @ us \<and> prefix us (c # t @ rest))"
    by (simp only: prefix_append)
  with np obtain us where us: "t = p @ us" "prefix us (c # t @ rest)" by blast
  show False
  proof (cases us)
    case Nil
    with us(1) np show False by simp
  next
    case (Cons u us')
    with us(2) have "u = c" by simp
    with Cons us(1) assms(1) show False by simp
  qed
qed





lemma split_first_absent:
  "pat \<noteq> [] \<Longrightarrow> \<not> sublist pat s \<Longrightarrow> split_first pat s = None"
proof (induction s)
  case Nil
  then show ?case by simp
next
  case (Cons c cs)
  from Cons.prems have "\<not> prefix pat (c # cs)" "\<not> sublist pat cs"
    by (auto simp: sublist_Cons_right)
  with Cons show ?case by simp
qed

lemma split_first_found:
  assumes "c \<notin> set t" "\<not> sublist (c # t) p"
  shows "split_first (c # t) (p @ c # t @ rest) = Some (p, rest)"
  using assms(2)
proof (induction p)
  case Nil
  then show ?case by simp
next
  case (Cons x p)
  from Cons.prems have "\<not> sublist (c # t) p" by (simp add: sublist_Cons_right)
  moreover from assms(1) Cons.prems have "\<not> prefix (c # t) (x # p @ c # t @ rest)"
    by (rule no_early_match)
  ultimately show ?case using Cons.IH by auto
qed

lemma get_substitution_plain:
  "CHR ''$'' \<notin> set r \<Longrightarrow> get_substitution m pre post r = r"
  by (induction m pre post r rule: get_substitution.induct) auto

lemma js_replace_absent:
  "pat \<noteq> [] \<Longrightarrow> \<not> sublist pat s \<Longrightarrow> js_replace s pat r = s"
  by (simp add: js_replace_def split_first_absent)

lemma js_replace_first:
  "c \<notin> set t \<Longrightarrow> \<not> sublist (c # t) p \<Longrightarrow>
   js_replace (p @ c # t @ rest) (c # t) r = p @ get_substitution (c # t) p rest r @ rest"
  by (simp add: js_replace_def split_first_found)






subsection \<open>The frontend's local prompt\<close>

text \<open>
  The frontend's \<^verbatim>\<open>executeWorkflow\<close> builds a prompt that it never uses. There the token
  \<^verbatim>\<open>{context}\<close> is replaced only when the context is not empty.
\<close>

lemma frontend_prompt_keeps_context_token:
  "\<exists>response. executeWorkflow_locals (\<lambda>x. []) llm_only_workflow ''Q''
                 = Inr ([], ''Use {context} for Q'', response)"
  by (simp add: executeWorkflow_locals_def kb_context_def llm_only_workflow_def llm_node_def
                llm_config_def empty_config_def js_replace_def)

end
